theory Spec2Isabelle
  imports Complex_Main "HOL-Library.AList"
begin

chapter \<open>The model\<close>


section \<open>Python values, exceptions and the outside world\<close>

text \<open>
  The collector framework is Python. Its dictionaries hold JSON-like values; a dictionary
  is an association list in insertion order, looked up with \<open>map_of\<close> and updated with
  \<open>AList.update\<close> (which keeps the position of an existing key and appends a new one, as a
  Python dict does). A Python \<open>float\<close> is modelled by a real number, so rounding, infinities
  and NaN are outside the model. A \<open>str\<close> is a \<open>string\<close>; text beyond ASCII is its UTF-8
  byte sequence.
\<close>

datatype pyval =
    PNone
  | PBool bool
  | PInt int
  | PFloat real
  | PStr string
  | PList "pyval list"
  | PDict "(string \<times> pyval) list"

type_synonym dict = "(string \<times> pyval) list"

text \<open>\<open>d.get(k)\<close> and \<open>d.get(k, default)\<close>.\<close>

definition get_default :: "dict \<Rightarrow> string \<Rightarrow> pyval \<Rightarrow> pyval" where
  "get_default d k dflt = (case map_of d k of None \<Rightarrow> dflt | Some v \<Rightarrow> v)"

definition get :: "dict \<Rightarrow> string \<Rightarrow> pyval" where
  "get d k = get_default d k PNone"

text \<open>
  Exceptions are values. \<open>RetryError\<close> is the exception of the \<open>tenacity\<close> library, raised
  when a retried call has used up its attempts; it carries the exception of the last attempt.
\<close>

datatype error =
    OutputError
  | CheckpointError
  | RateLimitError
  | APIError
  | AuthenticationError
  | RequestException
  | RetryError error
  | ValueError
  | TypeError
  | AttributeError
  | ZeroDivisionError
  | KeyboardInterrupt

text \<open>
  Storage is addressed by a local path or by a bucket and a blob path. The output files
  are only ever written, so a batch file is kept as the records serialised into it (one
  line each, with the compression flag) and a manifest as its dictionary. A checkpoint file
  is read back and has to be coped with whatever it holds, so it is kept as its bytes.
  The names of the two kinds differ (\<open>..._checkpoint.json\<close> and its \<open>.tmp\<close> against
  \<open>....ndjson\<close>, \<open>....ndjson.gz\<close> and \<open>..._manifest.json\<close>), so the world keeps them
  in two stores.
\<close>

datatype key = LocalPath string | GcsBlob string string

datatype blob =
    Ndjson "pyval list" bool
  | Manifest dict

text \<open>
  The result of one \<open>requests.get\<close>: a response with its status code, its body as JSON
  (\<open>None\<close> when the body is not JSON) and its \<open>Retry-After\<close> header, or a network failure
  (\<open>requests.RequestException\<close>, which includes timeouts).
\<close>

datatype header = NoHeader | IntHeader int | BadHeader

datatype http =
    Response int "pyval option" header
  | NetworkFailure

text \<open>
  The world outside the process: the two stores and the keys on which every storage
  operation fails; the completed writes of checkpoint files, in order; the wall clock
  (\<open>clock w k\<close> is what the \<open>k\<close>-th reading of the time returns as seconds, \<open>utc w k\<close> as
  an ISO timestamp); the durations passed to \<open>time.sleep\<close> so far; and the server
  (\<open>server w k\<close> is the outcome of the \<open>k\<close>-th request, and \<open>sent\<close> holds, for every
  request made so far, the cursor it asked for in its parameter \<open>after\<close>, \<open>None\<close> when it
  had none).
\<close>

record world =
  files :: "key \<Rightarrow> blob option"
  checkpoints :: "key \<Rightarrow> string option"
  checkpoint_writes :: "(key \<times> string) list"
  broken :: "key \<Rightarrow> bool"
  clock :: "nat \<Rightarrow> real"
  utc :: "nat \<Rightarrow> string"
  reads :: nat
  slept :: "real list"
  server :: "nat \<Rightarrow> http"
  sent :: "pyval list"

definition put :: "key \<Rightarrow> blob \<Rightarrow> world \<Rightarrow> world option" where
  "put k b s = (if broken s k then None else Some (s\<lparr>files := (files s)(k \<mapsto> b)\<rparr>))"

definition time_time :: "world \<Rightarrow> real \<times> world" where
  "time_time s = (clock s (reads s), s\<lparr>reads := Suc (reads s)\<rparr>)"

text \<open>\<open>datetime.utcnow().isoformat() + "Z"\<close>\<close>

definition utcnow_z :: "world \<Rightarrow> string \<times> world" where
  "utcnow_z s = (utc s (reads s) @ ''Z'', s\<lparr>reads := Suc (reads s)\<rparr>)"

text \<open>\<open>time.sleep\<close> refuses a negative duration.\<close>

definition sleep :: "real \<Rightarrow> world \<Rightarrow> (error + unit) \<times> world" where
  "sleep t s = (if t < 0 then (Inl ValueError, s) else (Inr (), s\<lparr>slept := slept s @ [t]\<rparr>))"

text \<open>\<open>os.path.join\<close> on POSIX paths, and the decimal formatting of \<open>f"{n:04d}"\<close>.\<close>

definition path_join :: "string \<Rightarrow> string \<Rightarrow> string" where
  "path_join a b =
     (if b \<noteq> [] \<and> hd b = CHR ''/'' then b
      else if a = [] \<or> last a = CHR ''/'' then a @ b
      else a @ ''/'' @ b)"

definition digit :: "nat \<Rightarrow> char" where
  "digit n = ''0123456789'' ! n"

fun str_nat :: "nat \<Rightarrow> string" where
  "str_nat n = (if n < 10 then [digit n] else str_nat (n div 10) @ [digit (n mod 10)])"

declare str_nat.simps [simp del]

definition zfill4 :: "string \<Rightarrow> string" where
  "zfill4 s = replicate (4 - length s) CHR ''0'' @ s"

text \<open>The value of a string of decimal digits, used to show that the formatting is injective.\<close>

definition digits_value :: "string \<Rightarrow> nat" where
  "digits_value s = foldl (\<lambda>a c. 10 * a + (of_char c - 48)) 0 s"

section \<open>OutputWriter (shared/output\_writer.py)\<close>

text \<open>
  The attributes that only the constructor assigns are the configuration; the attributes
  that the methods change are the state. A method takes the state and the world and
  returns its result, or the exception it raises, with the state and the world as it
  leaves them: an exception does not undo the assignments made before it.
\<close>

record writer_config =
  ow_platform :: string
  ow_mode :: string
  ow_bucket_name :: "string option"
  batch_size :: int
  compress :: bool
  extraction_id :: string
  output_dir :: string

record writer_state =
  current_batch :: "pyval list"
  batch_count :: nat
  total_records :: nat
  batch_files :: "string list"

text \<open>
  The constructor: \<open>extraction_id\<close> is the time of construction, formatted; the mode is
  checked (the directory creation of local mode is not modelled).
\<close>

definition OutputWriter_init ::
  "string \<Rightarrow> string \<Rightarrow> string option \<Rightarrow> int \<Rightarrow> string \<Rightarrow> bool \<Rightarrow> string
     \<Rightarrow> error + (writer_config \<times> writer_state)" where
  "OutputWriter_init platform mode bucket bsize base_path compr stamp =
     (let st = \<lparr>current_batch = [], batch_count = 0, total_records = 0, batch_files = []\<rparr>;
          cf = \<lparr>ow_platform = platform, ow_mode = mode, ow_bucket_name = bucket,
                batch_size = bsize, compress = compr, extraction_id = stamp,
                output_dir = []\<rparr>
      in if mode = ''local'' then Inr (cf\<lparr>output_dir := path_join base_path platform\<rparr>, st)
         else if mode = ''gcs'' then
           (if bucket = None \<or> bucket = Some [] then Inl OutputError
            else Inr (cf\<lparr>output_dir := platform\<rparr>, st))
         else Inl OutputError)"

definition batch_filename :: "writer_config \<Rightarrow> nat \<Rightarrow> string" where
  "batch_filename cf n =
     ow_platform cf @ ''_ads_'' @ extraction_id cf @ ''_batch_'' @ zfill4 (str_nat n) @ ''.ndjson''
       @ (if compress cf then ''.gz'' else [])"

definition manifest_filename :: "writer_config \<Rightarrow> string" where
  "manifest_filename cf = ow_platform cf @ ''_ads_'' @ extraction_id cf @ ''_manifest.json''"

text \<open>
  Where a file of the run goes. The two branches of \<open>flush_batch\<close> and \<open>finalize\<close>
  (\<open>if self.mode == "local": ... elif self.mode == "gcs": ...\<close>) write to the local path or
  upload the blob; with any other mode nothing is written. A failure inside the \<open>try\<close>
  block (also of the lazily created storage client) is \<open>None\<close> here and \<open>OutputError\<close> in
  the callers.
\<close>

definition file_key :: "writer_config \<Rightarrow> string \<Rightarrow> key option" where
  "file_key cf filename =
     (if ow_mode cf = ''local'' then Some (LocalPath (path_join (output_dir cf) filename))
      else case ow_bucket_name cf of
             None \<Rightarrow> None
           | Some bucket \<Rightarrow> Some (GcsBlob bucket (output_dir cf @ ''/'' @ filename)))"

definition store :: "writer_config \<Rightarrow> string \<Rightarrow> blob \<Rightarrow> world \<Rightarrow> world option" where
  "store cf filename b s =
     (if ow_mode cf = ''local'' \<or> ow_mode cf = ''gcs'' then
        (case file_key cf filename of None \<Rightarrow> None | Some k \<Rightarrow> put k b s)
      else Some s)"

definition flush_batch ::
  "writer_config \<Rightarrow> writer_state \<times> world \<Rightarrow> (error + string option) \<times> (writer_state \<times> world)" where
  "flush_batch cf ws =
     (case ws of (w, s) \<Rightarrow>
        if current_batch w = [] then (Inr None, (w, s))
        else
          let w1 = w\<lparr>batch_count := batch_count w + 1\<rparr>;
              filename = batch_filename cf (batch_count w1)
          in (case store cf filename (Ndjson (current_batch w1) (compress cf)) s of
                None \<Rightarrow> (Inl OutputError, (w1, s))
              | Some s' \<Rightarrow>
                  (Inr (Some filename),
                   (w1\<lparr>batch_files := batch_files w1 @ [filename], current_batch := []\<rparr>, s'))))"

definition write_record ::
  "writer_config \<Rightarrow> pyval \<Rightarrow> writer_state \<times> world \<Rightarrow> (error + unit) \<times> (writer_state \<times> world)" where
  "write_record cf r ws =
     (case ws of (w, s) \<Rightarrow>
        let w1 = w\<lparr>current_batch := current_batch w @ [r], total_records := total_records w + 1\<rparr>
        in if int (length (current_batch w1)) \<ge> batch_size cf then
             (case flush_batch cf (w1, s) of
                (Inl e, ws') \<Rightarrow> (Inl e, ws')
              | (Inr _, ws') \<Rightarrow> (Inr (), ws'))
           else (Inr (), (w1, s)))"

fun write_records ::
  "writer_config \<Rightarrow> pyval list \<Rightarrow> writer_state \<times> world \<Rightarrow> (error + unit) \<times> (writer_state \<times> world)" where
  "write_records cf [] ws = (Inr (), ws)"
| "write_records cf (r # rs) ws =
     (case write_record cf r ws of
        (Inl e, ws') \<Rightarrow> (Inl e, ws')
      | (Inr _, ws') \<Rightarrow> write_records cf rs ws')"

definition make_manifest :: "writer_config \<Rightarrow> writer_state \<Rightarrow> string \<Rightarrow> dict" where
  "make_manifest cf w completed =
     [(''extraction_id'', PStr (extraction_id cf)),
      (''platform'', PStr (ow_platform cf)),
      (''total_records'', PInt (int (total_records w))),
      (''total_batches'', PInt (int (batch_count w))),
      (''batch_files'', PList (map PStr (batch_files w))),
      (''extraction_started'', PStr (extraction_id cf)),
      (''extraction_completed'', PStr completed),
      (''mode'', PStr (ow_mode cf)),
      (''compressed'', PBool (compress cf))]"

definition finalize ::
  "writer_config \<Rightarrow> writer_state \<times> world \<Rightarrow> (error + dict) \<times> (writer_state \<times> world)" where
  "finalize cf ws =
     (case flush_batch cf ws of
        (Inl e, ws') \<Rightarrow> (Inl e, ws')
      | (Inr _, (w, s)) \<Rightarrow>
          (case utcnow_z s of (completed, s1) \<Rightarrow>
             let manifest = make_manifest cf w completed
             in (case store cf (manifest_filename cf) (Manifest manifest) s1 of
                   None \<Rightarrow> (Inl OutputError, (w, s1))
                 | Some s2 \<Rightarrow> (Inr manifest, (w, s2)))))"

text \<open>
  Notions used to state the batching property: the ceiling of a quotient, a configuration
  whose mode the constructor accepts, and what holds after the records \<open>xs\<close> have been
  written, one at a time, by a fresh writer in a world \<open>s0\<close> whose storage does not fail
  (\<open>B\<close> is the batch size).
\<close>

definition ceil_div :: "nat \<Rightarrow> nat \<Rightarrow> nat" where
  "ceil_div n b = nat \<lceil>real n / real b\<rceil>"

definition usable :: "writer_config \<Rightarrow> bool" where
  "usable cf = (ow_mode cf = ''local'' \<or> (ow_mode cf = ''gcs'' \<and> ow_bucket_name cf \<noteq> None))"

definition written ::
  "writer_config \<Rightarrow> nat \<Rightarrow> world \<Rightarrow> pyval list \<Rightarrow> writer_state \<times> world \<Rightarrow> bool" where
  "written cf B s0 xs ws =
     (case ws of (w, s) \<Rightarrow>
        current_batch w = drop ((length xs div B) * B) xs
      \<and> batch_count w = length xs div B
      \<and> total_records w = length xs
      \<and> batch_files w = map (batch_filename cf) [1..<Suc (length xs div B)]
      \<and> (\<forall>i<length xs div B. \<exists>k. file_key cf (batch_filename cf (Suc i)) = Some k
             \<and> files s k = Some (Ndjson (take B (drop (i * B) xs)) (compress cf)))
      \<and> (\<forall>k. (\<forall>i<length xs div B. file_key cf (batch_filename cf (Suc i)) \<noteq> Some k)
             \<longrightarrow> files s k = files s0 k)
      \<and> (\<forall>k. \<not> broken s k)
      \<and> reads s = reads s0 \<and> utc s = utc s0)"

text \<open>A world for examples: empty storage that never fails, a clock that ticks.\<close>

definition quiet_world :: world where
  "quiet_world =
     \<lparr>files = (\<lambda>k. None), checkpoints = (\<lambda>k. None), checkpoint_writes = [],
      broken = (\<lambda>k. False), clock = (\<lambda>k. real k),
      utc = (\<lambda>k. ''2024-01-15T12:00:00''), reads = 0, slept = [],
      server = (\<lambda>k. NetworkFailure), sent = []\<rparr>"

section \<open>RateLimiter (shared/rate\_limiter.py)\<close>

text \<open>
  A token bucket. \<open>requests_per_second\<close> is the attribute the constructor computes as
  \<open>requests_per_minute / 60.0\<close>. The time is read from the world at every call of
  \<open>time.time()\<close>, so any amount of time, also a negative one, can pass between two
  readings.
\<close>

record limiter_config =
  requests_per_minute :: int
  burst :: int
  backoff_multiplier :: real
  max_retries :: int
  initial_retry_delay :: real

record limiter =
  tokens :: real
  last_update :: real
  request_history :: "real list"
  total_requests :: nat
  total_wait_time :: real
  rate_limit_errors :: nat

definition requests_per_second :: "limiter_config \<Rightarrow> real" where
  "requests_per_second cf = real_of_int (requests_per_minute cf) / 60"

definition RateLimiter_init :: "limiter_config \<Rightarrow> world \<Rightarrow> limiter \<times> world" where
  "RateLimiter_init cf s =
     (case time_time s of (now, s1) \<Rightarrow>
        (\<lparr>tokens = real_of_int (burst cf), last_update = now, request_history = [],
          total_requests = 0, total_wait_time = 0, rate_limit_errors = 0\<rparr>, s1))"

text \<open>
  \<open>wait_if_needed\<close>: refill, wait for a token if there is less than one, take one, record
  the request. The division raises when the refill rate is zero.
\<close>

definition wait_if_needed ::
  "limiter_config \<Rightarrow> limiter \<times> world \<Rightarrow> (error + real) \<times> (limiter \<times> world)" where
  "wait_if_needed cf ls =
     (case ls of (l, s) \<Rightarrow>
      (case time_time s of (now, s1) \<Rightarrow>
        let elapsed = now - last_update l;
            l1 = l\<lparr>tokens := min (real_of_int (burst cf))
                                (tokens l + elapsed * requests_per_second cf),
                   last_update := now\<rparr>;
            take = (\<lambda>wait_time l2 s2.
              let l3 = l2\<lparr>tokens := tokens l2 - 1, total_requests := total_requests l2 + 1\<rparr>
              in (case time_time s2 of (current_time, s3) \<Rightarrow>
                   let cutoff = current_time - 300
                   in (Inr wait_time,
                       (l3\<lparr>request_history :=
                             filter (\<lambda>t. t > cutoff) (request_history l3 @ [current_time])\<rparr>,
                        s3))))
        in if tokens l1 < 1 then
             (if requests_per_second cf = 0 then (Inl ZeroDivisionError, (l1, s1))
              else
                let wait_time = (1 - tokens l1) / requests_per_second cf
                in (case sleep wait_time s1 of
                      (Inl e, s2) \<Rightarrow> (Inl e, (l1, s2))
                    | (Inr _, s2) \<Rightarrow>
                        take wait_time
                          (l1\<lparr>tokens := 1, total_wait_time := total_wait_time l1 + wait_time\<rparr>) s2))
           else take 0 l1 s1))"

text \<open>
  Python's \<open>x ** n\<close> for a float \<open>x\<close> and an integer \<open>n\<close>: a negative power of zero
  raises.
\<close>

definition py_pow :: "real \<Rightarrow> int \<Rightarrow> error + real" where
  "py_pow x n =
     (if 0 \<le> n then Inr (x ^ nat n)
      else if x = 0 then Inl ZeroDivisionError
      else Inr (1 / x ^ nat (- n)))"

text \<open>
  \<open>handle_rate_limit_error\<close> (the spec's \<open>reportThrottled\<close>). \<open>retry_after\<close> is
  \<open>None\<close> or a number of seconds, which the code converts with \<open>float\<close>.
\<close>

definition handle_rate_limit_error ::
  "limiter_config \<Rightarrow> real option \<Rightarrow> int \<Rightarrow> limiter \<times> world
     \<Rightarrow> (error + real) \<times> (limiter \<times> world)" where
  "handle_rate_limit_error cf retry_after attempt ls =
     (case ls of (l, s) \<Rightarrow>
        if attempt > max_retries cf then (Inl RateLimitError, (l, s))
        else
          let l1 = l\<lparr>rate_limit_errors := rate_limit_errors l + 1\<rparr>;
              planned =
                (case retry_after of
                   Some r \<Rightarrow> Inr r
                 | None \<Rightarrow>
                     (case py_pow (backoff_multiplier cf) (attempt - 1) of
                        Inl e \<Rightarrow> Inl e
                      | Inr p \<Rightarrow> Inr (initial_retry_delay cf * p)))
          in (case planned of
                Inl e \<Rightarrow> (Inl e, (l1, s))
              | Inr wait_time \<Rightarrow>
                  (case sleep wait_time s of
                     (Inl e, s1) \<Rightarrow> (Inl e, (l1, s1))
                   | (Inr _, s1) \<Rightarrow>
                       (case time_time s1 of (now, s2) \<Rightarrow>
                          (Inr wait_time,
                           (l1\<lparr>total_wait_time := total_wait_time l1 + wait_time,
                               tokens := real_of_int (burst cf),
                               last_update := now\<rparr>, s2))))))"

definition reset :: "limiter_config \<Rightarrow> limiter \<times> world \<Rightarrow> limiter \<times> world" where
  "reset cf ls =
     (case ls of (l, s) \<Rightarrow>
        (case time_time s of (now, s1) \<Rightarrow>
           (l\<lparr>tokens := real_of_int (burst cf), last_update := now, request_history := [],
              total_requests := 0, total_wait_time := 0, rate_limit_errors := 0\<rparr>, s1)))"

text \<open>
  A sequence of calls on one limiter. A call that raises leaves the limiter as it is at
  the raise, and the next call finds it so.
\<close>

datatype limiter_call = Acquire | Throttled "real option" int | Reset

definition limiter_step :: "limiter_config \<Rightarrow> limiter_call \<Rightarrow> limiter \<times> world \<Rightarrow> limiter \<times> world" where
  "limiter_step cf c ls =
     (case c of
        Acquire \<Rightarrow> snd (wait_if_needed cf ls)
      | Throttled retry_after attempt \<Rightarrow> snd (handle_rate_limit_error cf retry_after attempt ls)
      | Reset \<Rightarrow> reset cf ls)"

definition limiter_calls ::
  "limiter_config \<Rightarrow> limiter_call list \<Rightarrow> limiter \<times> world \<Rightarrow> limiter \<times> world" where
  "limiter_calls cf cs ls = foldl (\<lambda>ls c. limiter_step cf c ls) ls cs"

definition bucket_ok :: "limiter_config \<Rightarrow> limiter \<Rightarrow> bool" where
  "bucket_ok cf l = (0 \<le> tokens l \<and> tokens l \<le> real_of_int (burst cf))"


text \<open>A configuration for examples: the defaults of the Meta collector with a bucket of one.\<close>

definition demo_limiter_config :: limiter_config where
  "demo_limiter_config =
     \<lparr>requests_per_minute = 60, burst = 1, backoff_multiplier = 2, max_retries = 3,
      initial_retry_delay = 60\<rparr>"

definition demo_limiter :: limiter where
  "demo_limiter = fst (RateLimiter_init demo_limiter_config quiet_world)"

section \<open>CheckpointManager (shared/checkpoint\_manager.py)\<close>

text \<open>
  The checkpoint file is text in UTF-8 that holds one JSON document. Reading it decodes
  the bytes and parses the text, and the two steps fail with different exceptions: bytes
  that are not UTF-8 raise \<open>UnicodeDecodeError\<close>, text that is not JSON raises
  \<open>json.JSONDecodeError\<close>.

  \<open>utf8_valid\<close> is the well-formedness of UTF-8 that Python's decoder checks (no overlong
  forms, no surrogates, nothing above U+10FFFF).
\<close>

definition continuation :: "char \<Rightarrow> bool" where
  "continuation c = (128 \<le> (of_char c :: nat) \<and> (of_char c :: nat) \<le> 191)"

fun utf8_valid :: "string \<Rightarrow> bool" where
  "utf8_valid [] = True"
| "utf8_valid (c # cs) =
     (if (of_char c :: nat) < 128 then utf8_valid cs
      else if 194 \<le> (of_char c :: nat) \<and> (of_char c :: nat) \<le> 223 then
        (case cs of
           c1 # r \<Rightarrow> if continuation c1 then utf8_valid r else False
         | _ \<Rightarrow> False)
      else if 224 \<le> (of_char c :: nat) \<and> (of_char c :: nat) \<le> 239 then
        (case cs of
           c1 # c2 # r \<Rightarrow>
             if (if (of_char c :: nat) = 224 then 160 \<le> (of_char c1 :: nat) \<and> (of_char c1 :: nat) \<le> 191
                 else if (of_char c :: nat) = 237 then 128 \<le> (of_char c1 :: nat) \<and> (of_char c1 :: nat) \<le> 159
                 else continuation c1)
                \<and> continuation c2
             then utf8_valid r else False
         | _ \<Rightarrow> False)
      else if 240 \<le> (of_char c :: nat) \<and> (of_char c :: nat) \<le> 244 then
        (case cs of
           c1 # c2 # c3 # r \<Rightarrow>
             if (if (of_char c :: nat) = 240 then 144 \<le> (of_char c1 :: nat) \<and> (of_char c1 :: nat) \<le> 191
                 else if (of_char c :: nat) = 244 then 128 \<le> (of_char c1 :: nat) \<and> (of_char c1 :: nat) \<le> 143
                 else continuation c1)
                \<and> continuation c2 \<and> continuation c3
             then utf8_valid r else False
         | _ \<Rightarrow> False)
      else False)"

text \<open>
  Python's \<open>json\<close> module is a parameter of the model: \<open>json_dumps\<close> is
  \<open>json.dumps(v, indent=2)\<close> and \<open>json_loads\<close> is \<open>json.loads\<close>, with \<open>None\<close> for
  \<open>JSONDecodeError\<close>.
\<close>

record json_lib =
  json_dumps :: "pyval \<Rightarrow> string"
  json_loads :: "string \<Rightarrow> pyval option"

text \<open>Truth of a value in a condition, and whether \<open>v[:20]\<close> is defined.\<close>

fun truthy :: "pyval \<Rightarrow> bool" where
  "truthy PNone = False"
| "truthy (PBool b) = b"
| "truthy (PInt i) = (i \<noteq> 0)"
| "truthy (PFloat r) = (r \<noteq> 0)"
| "truthy (PStr s) = (s \<noteq> [])"
| "truthy (PList xs) = (xs \<noteq> [])"
| "truthy (PDict d) = (d \<noteq> [])"

fun sliceable :: "pyval \<Rightarrow> bool" where
  "sliceable (PStr s) = True"
| "sliceable (PList xs) = True"
| "sliceable v = False"

text \<open>\<open>v + n\<close> for an integer \<open>n\<close>, and \<open>d.update(other)\<close>.\<close>

fun py_add_int :: "pyval \<Rightarrow> int \<Rightarrow> error + pyval" where
  "py_add_int (PInt a) n = Inr (PInt (a + n))"
| "py_add_int (PBool b) n = Inr (PInt ((if b then 1 else 0) + n))"
| "py_add_int (PFloat r) n = Inr (PFloat (r + real_of_int n))"
| "py_add_int v n = Inl TypeError"

definition dict_update :: "dict \<Rightarrow> dict \<Rightarrow> dict" where
  "dict_update d other = foldl (\<lambda>d kv. AList.update (fst kv) (snd kv) d) d other"

record checkpoint_config =
  cm_platform :: string
  cm_mode :: string
  cm_bucket_name :: "string option"
  checkpoint_path :: string

definition CheckpointManager_init ::
  "string \<Rightarrow> string \<Rightarrow> string option \<Rightarrow> string \<Rightarrow> error + checkpoint_config" where
  "CheckpointManager_init platform mode bucket base_path =
     (let cf = \<lparr>cm_platform = platform, cm_mode = mode, cm_bucket_name = bucket,
                checkpoint_path = []\<rparr>
      in if mode = ''local'' then
           Inr (cf\<lparr>checkpoint_path := path_join base_path (platform @ ''_checkpoint.json'')\<rparr>)
         else if mode = ''gcs'' then
           (if bucket = None \<or> bucket = Some [] then Inl CheckpointError
            else Inr (cf\<lparr>checkpoint_path := ''checkpoints/'' @ platform @ ''_checkpoint.json''\<rparr>))
         else Inl CheckpointError)"

definition checkpoint_key :: "checkpoint_config \<Rightarrow> string \<Rightarrow> key option" where
  "checkpoint_key cf path =
     (if cm_mode cf = ''local'' then Some (LocalPath path)
      else case cm_bucket_name cf of None \<Rightarrow> None | Some bucket \<Rightarrow> Some (GcsBlob bucket path))"

text \<open>
  \<open>load\<close>. The handler of \<open>json.JSONDecodeError\<close> lets the method return \<open>None\<close>; the
  handler of every other exception raises \<open>CheckpointError\<close>. The other exceptions are a
  storage failure, \<open>UnicodeDecodeError\<close> from the decoding, and \<open>AttributeError\<close> from
  \<open>data.get\<close> in the log message when the document is not an object.
\<close>

definition load :: "json_lib \<Rightarrow> checkpoint_config \<Rightarrow> world \<Rightarrow> error + dict option" where
  "load J cf s =
     (if cm_mode cf = ''local'' \<or> cm_mode cf = ''gcs'' then
        (case checkpoint_key cf (checkpoint_path cf) of
           None \<Rightarrow> Inl CheckpointError
         | Some k \<Rightarrow>
             (case checkpoints s k of
                None \<Rightarrow> if cm_mode cf = ''gcs'' \<and> broken s k then Inl CheckpointError else Inr None
              | Some bytes \<Rightarrow>
                  if broken s k then Inl CheckpointError
                  else if \<not> utf8_valid bytes then Inl CheckpointError
                  else (case json_loads J bytes of
                          None \<Rightarrow> Inr None
                        | Some (PDict d) \<Rightarrow> Inr (Some d)
                        | Some v \<Rightarrow> Inl CheckpointError)))
      else Inr None)"

text \<open>
  \<open>save\<close>. In local mode the text goes to a temporary file that then replaces the
  checkpoint file. The log message at the end of the \<open>try\<close> block slices the cursor, which
  raises for a cursor that is true and cannot be sliced, after the file has been written.
\<close>

definition save :: "json_lib \<Rightarrow> checkpoint_config \<Rightarrow> dict \<Rightarrow> world \<Rightarrow> (error + unit) \<times> world" where
  "save J cf data s =
     (case utcnow_z s of (stamp, s1) \<Rightarrow>
        let data1 = AList.update ''last_update'' (PStr stamp) data;
            data2 = AList.update ''platform'' (PStr (cm_platform cf)) data1;
            doc = json_dumps J (PDict data2);
            logged = (\<lambda>s'. if truthy (get data2 ''cursor'') \<and> \<not> sliceable (get data2 ''cursor'')
                            then (Inl CheckpointError, s') else (Inr (), s'))
        in if cm_mode cf = ''local'' then
             (let tmp = LocalPath (checkpoint_path cf @ ''.tmp'');
                  k = LocalPath (checkpoint_path cf)
              in if broken s1 tmp then (Inl CheckpointError, s1)
                 else if broken s1 k then
                   (Inl CheckpointError, s1\<lparr>checkpoints := (checkpoints s1)(tmp \<mapsto> doc)\<rparr>)
                 else logged (s1\<lparr>checkpoints := (checkpoints s1)(tmp := None, k \<mapsto> doc),
                                 checkpoint_writes := checkpoint_writes s1 @ [(k, doc)]\<rparr>))
           else if cm_mode cf = ''gcs'' then
             (case cm_bucket_name cf of
                None \<Rightarrow> (Inl CheckpointError, s1)
              | Some bucket \<Rightarrow>
                  let k = GcsBlob bucket (checkpoint_path cf)
                  in if broken s1 k then (Inl CheckpointError, s1)
                     else logged (s1\<lparr>checkpoints := (checkpoints s1)(k \<mapsto> doc),
                                     checkpoint_writes := checkpoint_writes s1 @ [(k, doc)]\<rparr>))
           else logged s1)"

text \<open>
  \<open>get_cursor\<close>: the log message slices the cursor outside any \<open>try\<close>, so a cursor that is
  true and cannot be sliced raises \<open>TypeError\<close>.
\<close>

definition get_cursor :: "json_lib \<Rightarrow> checkpoint_config \<Rightarrow> world \<Rightarrow> error + pyval" where
  "get_cursor J cf s =
     (case load J cf s of
        Inl e \<Rightarrow> Inl e
      | Inr ck \<Rightarrow>
          let cursor = (case ck of None \<Rightarrow> PNone | Some d \<Rightarrow> if d = [] then PNone else get d ''cursor'')
          in if truthy cursor \<and> \<not> sliceable cursor then Inl TypeError else Inr cursor)"

definition save_cursor ::
  "json_lib \<Rightarrow> checkpoint_config \<Rightarrow> pyval \<Rightarrow> int \<Rightarrow> dict option \<Rightarrow> world \<Rightarrow> (error + unit) \<times> world" where
  "save_cursor J cf cursor records_in_batch additional_data s =
     (case load J cf s of
        Inl e \<Rightarrow> (Inl e, s)
      | Inr ck \<Rightarrow>
          let checkpoint = (case ck of None \<Rightarrow> [] | Some d \<Rightarrow> d);
              c1 = AList.update ''cursor'' cursor checkpoint
          in (case py_add_int (get_default c1 ''records_processed'' (PInt 0)) records_in_batch of
                Inl e \<Rightarrow> (Inl e, s)
              | Inr processed \<Rightarrow>
                  let c2 = AList.update ''records_processed'' processed c1;
                      c3 = (case additional_data of None \<Rightarrow> c2 | Some a \<Rightarrow> dict_update c2 a)
                  in save J cf c3 s))"

definition update_progress ::
  "json_lib \<Rightarrow> checkpoint_config \<Rightarrow> pyval \<Rightarrow> dict option \<Rightarrow> world \<Rightarrow> (error + unit) \<times> world" where
  "update_progress J cf records_processed additional_data s =
     (case load J cf s of
        Inl e \<Rightarrow> (Inl e, s)
      | Inr ck \<Rightarrow>
          let checkpoint = (case ck of None \<Rightarrow> [] | Some d \<Rightarrow> d);
              c1 = AList.update ''records_processed'' records_processed checkpoint;
              c2 = (case additional_data of None \<Rightarrow> c1 | Some a \<Rightarrow> dict_update c1 a)
          in save J cf c2 s)"

text \<open>
  What a theorem about reading back assumes of the \<open>json\<close> module at a value: the value's
  serialisation is well-formed UTF-8 (it is ASCII, as \<open>ensure_ascii\<close> is left on) and parses
  back to the value.
\<close>

definition survives :: "json_lib \<Rightarrow> pyval \<Rightarrow> bool" where
  "survives J v = (utf8_valid (json_dumps J v) \<and> json_loads J (json_dumps J v) = Some v)"

text \<open>What \<open>save\<close> stores for a dictionary: the dictionary with the two fields it sets.\<close>

definition stamped :: "checkpoint_config \<Rightarrow> string \<Rightarrow> dict \<Rightarrow> dict" where
  "stamped cf stamp data =
     AList.update ''platform'' (PStr (cm_platform cf)) (AList.update ''last_update'' (PStr stamp) data)"

section \<open>A small JSON reader and writer, for examples\<close>

text \<open>
  Where an example needs a concrete \<open>json\<close> module, this one stands in. It writes and
  reads \<open>null\<close>, the booleans, integers, strings without quotes and escapes, lists and
  objects, in the compact layout of \<open>json.dumps\<close>. A float is written as \<open>NaN\<close>, which it
  does not read. The reader takes fuel, one unit for every value and every further
  element; the length of the text is enough.
\<close>

definition joined :: "string \<Rightarrow> string list \<Rightarrow> string" where
  "joined sep xs = (case xs of [] \<Rightarrow> [] | x # r \<Rightarrow> x @ concat (map (\<lambda>y. sep @ y) r))"

definition str_int :: "int \<Rightarrow> string" where
  "str_int i = (if i < 0 then ''-'' @ str_nat (nat (- i)) else str_nat (nat i))"

fun mini_dumps :: "pyval \<Rightarrow> string" where
  "mini_dumps PNone = ''null''"
| "mini_dumps (PBool b) = (if b then ''true'' else ''false'')"
| "mini_dumps (PInt i) = str_int i"
| "mini_dumps (PFloat r) = ''NaN''"
| "mini_dumps (PStr s) = [CHR 0x22] @ s @ [CHR 0x22]"
| "mini_dumps (PList xs) = ''['' @ joined '', '' (map mini_dumps xs) @ '']''"
| "mini_dumps (PDict d) =
     ''{'' @ joined '', '' (map (\<lambda>(k, v). [CHR 0x22] @ k @ [CHR 0x22] @ '': '' @ mini_dumps v) d) @ ''}''"

definition skip_ws :: "string \<Rightarrow> string" where
  "skip_ws s = dropWhile (\<lambda>c. c = CHR '' '' \<or> c = CHR 0x0A) s"

definition is_digit :: "char \<Rightarrow> bool" where
  "is_digit c = (48 \<le> (of_char c :: nat) \<and> (of_char c :: nat) \<le> 57)"

definition read_string :: "string \<Rightarrow> (string \<times> string) option" where
  "read_string s =
     (let body = takeWhile (\<lambda>c. c \<noteq> CHR 0x22) s; r = dropWhile (\<lambda>c. c \<noteq> CHR 0x22) s
      in if r = [] \<or> CHR 0x5C \<in> set body then None else Some (body, tl r))"

definition read_nat :: "string \<Rightarrow> (nat \<times> string) option" where
  "read_nat s =
     (let ds = takeWhile is_digit s
      in if ds = [] then None else Some (digits_value ds, dropWhile is_digit s))"

fun read_value :: "nat \<Rightarrow> string \<Rightarrow> (pyval \<times> string) option"
  and read_items :: "nat \<Rightarrow> pyval list \<Rightarrow> string \<Rightarrow> (pyval \<times> string) option"
  and read_members :: "nat \<Rightarrow> dict \<Rightarrow> string \<Rightarrow> (pyval \<times> string) option" where
  "read_value 0 s = None"
| "read_value (Suc n) s =
     (case skip_ws s of
        [] \<Rightarrow> None
      | c # r \<Rightarrow>
          if c = CHR ''n'' then (if take 3 r = ''ull'' then Some (PNone, drop 3 r) else None)
          else if c = CHR ''t'' then (if take 3 r = ''rue'' then Some (PBool True, drop 3 r) else None)
          else if c = CHR ''f'' then (if take 4 r = ''alse'' then Some (PBool False, drop 4 r) else None)
          else if c = CHR 0x22 then
            (case read_string r of None \<Rightarrow> None | Some (str, r') \<Rightarrow> Some (PStr str, r'))
          else if c = CHR ''['' then
            (case skip_ws r of
               [] \<Rightarrow> None
             | c' # r' \<Rightarrow> if c' = CHR '']'' then Some (PList [], r') else read_items n [] r)
          else if c = CHR ''{'' then
            (case skip_ws r of
               [] \<Rightarrow> None
             | c' # r' \<Rightarrow> if c' = CHR ''}'' then Some (PDict [], r') else read_members n [] r)
          else if c = CHR ''-'' then
            (case read_nat r of None \<Rightarrow> None | Some (m, r') \<Rightarrow> Some (PInt (- int m), r'))
          else
            (case read_nat (c # r) of None \<Rightarrow> None | Some (m, r') \<Rightarrow> Some (PInt (int m), r')))"
| "read_items 0 acc s = None"
| "read_items (Suc n) acc s =
     (case read_value n s of
        None \<Rightarrow> None
      | Some (v, r) \<Rightarrow>
          (case skip_ws r of
             [] \<Rightarrow> None
           | c # r' \<Rightarrow>
               if c = CHR '','' then read_items n (acc @ [v]) r'
               else if c = CHR '']'' then Some (PList (acc @ [v]), r')
               else None))"
| "read_members 0 acc s = None"
| "read_members (Suc n) acc s =
     (case skip_ws s of
        [] \<Rightarrow> None
      | q # r0 \<Rightarrow>
          if q \<noteq> CHR 0x22 then None
          else
            (case read_string r0 of
               None \<Rightarrow> None
             | Some (k, r1) \<Rightarrow>
                 (case skip_ws r1 of
                    [] \<Rightarrow> None
                  | colon # r2 \<Rightarrow>
                      if colon \<noteq> CHR '':'' then None
                      else
                        (case read_value n r2 of
                           None \<Rightarrow> None
                         | Some (v, r3) \<Rightarrow>
                             (case skip_ws r3 of
                                [] \<Rightarrow> None
                              | c # r4 \<Rightarrow>
                                  if c = CHR '','' then read_members n (AList.update k v acc) r4
                                  else if c = CHR ''}'' then Some (PDict (AList.update k v acc), r4)
                                  else None)))))"

definition mini_loads :: "string \<Rightarrow> pyval option" where
  "mini_loads s =
     (case read_value (Suc (length s)) s of
        None \<Rightarrow> None
      | Some (v, r) \<Rightarrow> if skip_ws r = [] then Some v else None)"

definition mini_json :: json_lib where
  "mini_json = \<lparr>json_dumps = mini_dumps, json_loads = mini_loads\<rparr>"

text \<open>A checkpoint manager for examples, as the collector scripts construct it in local mode.\<close>

definition demo_checkpoint_config :: checkpoint_config where
  "demo_checkpoint_config =
     \<lparr>cm_platform = ''meta'', cm_mode = ''local'', cm_bucket_name = None,
      checkpoint_path = ''.checkpoints/meta_checkpoint.json''\<rparr>"

section \<open>Records: transformation and validation (collectors/base.py, collectors/meta/collector.py)\<close>

text \<open>
  Functions of Python's library that the transformation and the validation call are
  parameters of the model: \<open>blank s\<close> is \<open>not s.strip()\<close>, \<open>str_of v\<close> is \<open>str(v)\<close> (also
  what an f-string prints), \<open>to_float s\<close> is \<open>float(s)\<close> with \<open>None\<close> for \<open>ValueError\<close>, and
  \<open>iso_ok s\<close> tells whether \<open>datetime.fromisoformat(s)\<close> accepts \<open>s\<close>.
\<close>

record pylib =
  blank :: "string \<Rightarrow> bool"
  str_of :: "pyval \<Rightarrow> string"
  to_float :: "string \<Rightarrow> real option"
  iso_ok :: "string \<Rightarrow> bool"

text \<open>
  Python's \<open>==\<close> and \<open>>\<close> on values. Numbers (booleans among them) compare by value,
  strings and lists lexicographically, dictionaries are equal when they map the same keys
  to equal values, and \<open>>\<close> raises \<open>TypeError\<close> for every other pair.
\<close>

fun num_of :: "pyval \<Rightarrow> real option" where
  "num_of (PInt i) = Some (real_of_int i)"
| "num_of (PFloat r) = Some r"
| "num_of (PBool b) = Some (if b then 1 else 0)"
| "num_of v = None"

fun py_eq :: "pyval \<Rightarrow> pyval \<Rightarrow> bool" where
  "py_eq (PList xs) (PList ys) = list_all2 py_eq xs ys"
| "py_eq (PDict d) (PDict e) =
     (length d = length e
      \<and> list_all (\<lambda>kv. case map_of e (fst kv) of None \<Rightarrow> False | Some v' \<Rightarrow> py_eq (snd kv) v') d)"
| "py_eq (PStr a) (PStr b) = (a = b)"
| "py_eq PNone PNone = True"
| "py_eq a b = (case num_of a of None \<Rightarrow> False
                | Some x \<Rightarrow> (case num_of b of None \<Rightarrow> False | Some y \<Rightarrow> x = y))"

fun str_gt :: "string \<Rightarrow> string \<Rightarrow> bool" where
  "str_gt [] b = False"
| "str_gt (x # xs) [] = True"
| "str_gt (x # xs) (y # ys) =
     (if x = y then str_gt xs ys else (of_char y :: nat) < of_char x)"

fun py_gt :: "pyval \<Rightarrow> pyval \<Rightarrow> error + bool" where
  "py_gt (PList []) (PList ys) = Inr False"
| "py_gt (PList (x # xs)) (PList []) = Inr True"
| "py_gt (PList (x # xs)) (PList (y # ys)) =
     (if py_eq x y then py_gt (PList xs) (PList ys) else py_gt x y)"
| "py_gt (PStr a) (PStr b) = Inr (str_gt a b)"
| "py_gt a b = (case num_of a of None \<Rightarrow> Inl TypeError
                | Some x \<Rightarrow> (case num_of b of None \<Rightarrow> Inl TypeError | Some y \<Rightarrow> Inr (y < x)))"

text \<open>\<open>BaseAdCollector._validate_required_fields\<close>: the first field that fails decides.\<close>

fun validate_required_fields :: "pylib \<Rightarrow> dict \<Rightarrow> string list \<Rightarrow> bool \<times> string option" where
  "validate_required_fields L record [] = (True, None)"
| "validate_required_fields L record (field # rest) =
     (let v = get record field
      in if v = PNone \<or> (case v of PStr s \<Rightarrow> blank L s | _ \<Rightarrow> False)
         then (False, Some (''Missing or empty required field: '' @ field))
         else validate_required_fields L record rest)"

definition replace_Z :: "string \<Rightarrow> string" where
  "replace_Z s = concat (map (\<lambda>c. if c = CHR ''Z'' then ''+00:00'' else [c]) s)"

text \<open>
  The loop over the date fields of \<open>validate_record\<close>: a value that is true must be a
  string that \<open>fromisoformat\<close> accepts once \<open>Z\<close> is replaced (a value without \<open>replace\<close>
  raises \<open>AttributeError\<close>, which the loop catches with \<open>ValueError\<close>).
\<close>

fun validate_dates :: "pylib \<Rightarrow> dict \<Rightarrow> string list \<Rightarrow> string option" where
  "validate_dates L record [] = None"
| "validate_dates L record (date_field # rest) =
     (let date_value = get record date_field
      in if truthy date_value
            \<and> \<not> (case date_value of PStr s \<Rightarrow> iso_ok L (replace_Z s) | _ \<Rightarrow> False)
         then Some (''Invalid date format for '' @ date_field @ '': '' @ str_of L date_value)
         else validate_dates L record rest)"

text \<open>\<open>MetaAdCollector.validate_record\<close>. The comparison of the spend bounds can raise.\<close>

definition validate_record :: "pylib \<Rightarrow> dict \<Rightarrow> error + (bool \<times> string option)" where
  "validate_record L record =
     (case validate_required_fields L record [''ad_id'', ''platform'', ''advertiser_name''] of
        (False, err) \<Rightarrow> Inr (False, err)
      | (True, err) \<Rightarrow>
          let ad_id = get_default record ''ad_id'' (PStr [])
          in if \<not> truthy ad_id \<or> blank L (str_of L ad_id) then Inr (False, Some ''ad_id is empty'')
             else if \<not> py_eq (get record ''platform'') (PStr ''meta'') then
               Inr (False, Some (''Invalid platform: '' @ str_of L (get record ''platform'')))
             else
               (case validate_dates L record [''start_date'', ''end_date'', ''ad_creation_time''] of
                  Some err \<Rightarrow> Inr (False, Some err)
                | None \<Rightarrow>
                    let spend_min = get record ''spend_min''; spend_max = get record ''spend_max''
                    in if spend_min \<noteq> PNone \<and> spend_max \<noteq> PNone then
                         (case py_gt spend_min spend_max of
                            Inl e \<Rightarrow> Inl e
                          | Inr gt \<Rightarrow>
                              if gt then
                                Inr (False, Some (''spend_min ('' @ str_of L spend_min
                                                    @ '') > spend_max ('' @ str_of L spend_max @ '')''))
                              else Inr (True, None))
                       else Inr (True, None)))"

text \<open>
  \<open>MetaAdCollector._parse_range\<close>. The \<open>try\<close> block stops at the first bound that
  \<open>float\<close> refuses and keeps what was assigned before.
\<close>

definition parse_bound :: "pylib \<Rightarrow> pyval \<Rightarrow> real option" where
  "parse_bound L v = to_float L (filter (\<lambda>c. c \<noteq> CHR '','') (str_of L v))"

definition opt_float :: "real option \<Rightarrow> pyval" where
  "opt_float x = (case x of None \<Rightarrow> PNone | Some r \<Rightarrow> PFloat r)"

definition parse_range :: "pylib \<Rightarrow> pyval \<Rightarrow> dict" where
  "parse_range L range_data =
     (case range_data of
        PDict d \<Rightarrow>
          if d = [] then [(''min'', PNone), (''max'', PNone)]
          else
            let lower = get d ''lower_bound''; upper = get d ''upper_bound''
            in if lower \<noteq> PNone then
                 (case parse_bound L lower of
                    None \<Rightarrow> [(''min'', PNone), (''max'', PNone)]
                  | Some lo \<Rightarrow>
                      if upper \<noteq> PNone then
                        (case parse_bound L upper of
                           None \<Rightarrow> [(''min'', PFloat lo), (''max'', PNone)]
                         | Some hi \<Rightarrow> [(''min'', PFloat lo), (''max'', PFloat hi)])
                      else [(''min'', PFloat lo), (''max'', PFloat lo)])
               else if upper \<noteq> PNone then
                 [(''min'', PNone), (''max'', opt_float (parse_bound L upper))]
               else [(''min'', PNone), (''max'', PNone)]
      | v \<Rightarrow> [(''min'', PNone), (''max'', PNone)])"

text \<open>
  \<open>MetaAdCollector.transform_ad\<close>. Four helper methods fill fields that no property below
  depends on (the ad text, the funding entity, the targeting data and the audience size);
  they are parameters, and \<open>extract_ad_content\<close> may raise. The raw item has to be a
  dictionary, as \<open>raw_ad.get\<close> is called on it.
\<close>

record meta_helpers =
  extract_ad_content :: "dict \<Rightarrow> error + pyval"
  extract_funding_entity :: "dict \<Rightarrow> pyval"
  build_targeting_data :: "dict \<Rightarrow> pyval"
  parse_audience_size :: "pyval \<Rightarrow> pyval"

definition transform_ad ::
  "pylib \<Rightarrow> meta_helpers \<Rightarrow> string \<Rightarrow> pyval \<Rightarrow> world \<Rightarrow> (error + dict) \<times> world" where
  "transform_ad L H api_version raw s =
     (case raw of
        PDict raw_ad \<Rightarrow>
          let spend_data = parse_range L (get_default raw_ad ''spend'' (PDict []));
              impressions_data = parse_range L (get_default raw_ad ''impressions'' (PDict []))
          in (case extract_ad_content H raw_ad of
                Inl e \<Rightarrow> (Inl e, s)
              | Inr ad_content \<Rightarrow>
                  (case utcnow_z s of (extracted_at, s1) \<Rightarrow>
                     (Inr [(''ad_id'', get raw_ad ''id''),
                           (''platform'', PStr ''meta''),
                           (''advertiser_name'', get raw_ad ''page_name''),
                           (''page_id'', get raw_ad ''page_id''),
                           (''funding_entity'', extract_funding_entity H raw_ad),
                           (''ad_creation_time'', get raw_ad ''ad_creation_time''),
                           (''start_date'', get raw_ad ''ad_delivery_start_time''),
                           (''end_date'', get raw_ad ''ad_delivery_stop_time''),
                           (''spend_min'', get spend_data ''min''),
                           (''spend_max'', get spend_data ''max''),
                           (''spend_currency'', get raw_ad ''currency''),
                           (''impressions_min'', get impressions_data ''min''),
                           (''impressions_max'', get impressions_data ''max''),
                           (''eu_total_reach'', get raw_ad ''eu_total_reach''),
                           (''estimated_audience_size'',
                              parse_audience_size H (get raw_ad ''estimated_audience_size'')),
                           (''ad_content'', ad_content),
                           (''ad_snapshot_url'', get raw_ad ''ad_snapshot_url''),
                           (''languages'', get raw_ad ''languages''),
                           (''targeting_data'', build_targeting_data H raw_ad),
                           (''publisher_platforms'', get raw_ad ''publisher_platforms''),
                           (''raw_response'', PDict raw_ad),
                           (''extracted_at'', PStr extracted_at),
                           (''api_version'', PStr api_version)], s1)))
      | v \<Rightarrow> (Inl AttributeError, s))"

text \<open>When a required field counts as missing or empty.\<close>

definition missing_or_empty :: "pylib \<Rightarrow> dict \<Rightarrow> string \<Rightarrow> bool" where
  "missing_or_empty L record field =
     (case map_of record field of
        None \<Rightarrow> True
      | Some PNone \<Rightarrow> True
      | Some (PStr s) \<Rightarrow> blank L s
      | Some v \<Rightarrow> False)"


definition required_fields :: "string list" where
  "required_fields = [''ad_id'', ''platform'', ''advertiser_name'']"

text \<open>
  A library for examples: \<open>blank\<close> knows the ASCII white space, \<open>str_of\<close> prints what the
  small JSON writer prints except for strings, \<open>None\<close> and the booleans, \<open>to_float\<close> reads
  unsigned decimal integers, and \<open>iso_ok\<close> looks for a date \<open>YYYY-MM-DD\<close> in front. The
  example helpers return \<open>None\<close>, as the collector's helpers do on a raw item that has none
  of the fields they read.
\<close>

definition is_space :: "char \<Rightarrow> bool" where
  "is_space c = (c = CHR '' '' \<or> (9 \<le> (of_char c :: nat) \<and> (of_char c :: nat) \<le> 13))"

definition demo_str :: "pyval \<Rightarrow> string" where
  "demo_str v =
     (case v of
        PStr s \<Rightarrow> s
      | PNone \<Rightarrow> ''None''
      | PBool b \<Rightarrow> (if b then ''True'' else ''False'')
      | w \<Rightarrow> mini_dumps w)"

definition demo_float :: "string \<Rightarrow> real option" where
  "demo_float s =
     (case read_nat s of
        None \<Rightarrow> None
      | Some (n, r) \<Rightarrow> if r = [] then Some (real n) else None)"

definition demo_iso :: "string \<Rightarrow> bool" where
  "demo_iso s =
     (10 \<le> length s \<and> list_all is_digit (take 4 s) \<and> s ! 4 = CHR ''-''
      \<and> list_all is_digit (take 2 (drop 5 s)) \<and> s ! 7 = CHR ''-''
      \<and> list_all is_digit (take 2 (drop 8 s)))"

definition demo_pylib :: pylib where
  "demo_pylib = \<lparr>blank = list_all is_space, str_of = demo_str, to_float = demo_float, iso_ok = demo_iso\<rparr>"

definition demo_helpers :: meta_helpers where
  "demo_helpers =
     \<lparr>extract_ad_content = (\<lambda>d. Inr PNone), extract_funding_entity = (\<lambda>d. PNone),
      build_targeting_data = (\<lambda>d. PNone), parse_audience_size = (\<lambda>v. PNone)\<rparr>"

section \<open>MetaAdCollector: requests and the fetch stream (collectors/meta/collector.py)\<close>

text \<open>
  The collector owns a rate limiter and a checkpoint manager. Its state is the limiter and
  the two counters \<open>_request_count\<close> and \<open>_records_since_checkpoint\<close>.
\<close>

record collector_config =
  limiter_config :: limiter_config
  checkpoint_config :: checkpoint_config
  checkpoint_interval :: int

record collector_state =
  rate_limiter :: limiter
  request_count :: nat
  records_since_checkpoint :: int

text \<open>
  The body of \<open>_make_request\<close>, one attempt. A body that is not JSON makes
  \<open>response.json()\<close> raise the \<open>JSONDecodeError\<close> of \<open>requests\<close>, which is a
  \<open>RequestException\<close> and a \<open>ValueError\<close>: with status 200 it leaves the method and is
  retried, in the error path it is caught and the error data is empty. A throttling
  response (error code 4 or 17, or status 429) calls the limiter with the \<open>Retry-After\<close>
  header (60 without one) and the default \<open>attempt = 1\<close>, then raises \<open>RateLimitError\<close>.
\<close>

definition error_data_of :: "pyval option \<Rightarrow> error + dict" where
  "error_data_of body =
     (case body of
        None \<Rightarrow> Inr []
      | Some (PDict d) \<Rightarrow>
          (case get_default d ''error'' (PDict []) of PDict e \<Rightarrow> Inr e | v \<Rightarrow> Inl AttributeError)
      | Some v \<Rightarrow> Inl AttributeError)"

definition make_request_once ::
  "collector_config \<Rightarrow> pyval \<Rightarrow> collector_state \<times> world
     \<Rightarrow> (error + pyval) \<times> (collector_state \<times> world)" where
  "make_request_once cf after cs =
     (case cs of (c, s) \<Rightarrow>
        let c1 = c\<lparr>request_count := request_count c + 1\<rparr>;
            s1 = s\<lparr>sent := sent s @ [after]\<rparr>
        in (case server s (length (sent s)) of
              NetworkFailure \<Rightarrow> (Inl RequestException, (c1, s1))
            | Response status body hdr \<Rightarrow>
                if status = 200 then
                  (case body of
                     None \<Rightarrow> (Inl RequestException, (c1, s1))
                   | Some v \<Rightarrow> (Inr v, (c1, s1)))
                else
                  (case error_data_of body of
                     Inl e \<Rightarrow> (Inl e, (c1, s1))
                   | Inr error_data \<Rightarrow>
                       let error_code = get error_data ''code''
                       in if py_eq error_code (PInt 4) \<or> py_eq error_code (PInt 17) \<or> status = 429
                          then
                            (case hdr of
                               BadHeader \<Rightarrow> (Inl ValueError, (c1, s1))
                             | h \<Rightarrow>
                                 let retry_after = (case h of IntHeader n \<Rightarrow> n | h' \<Rightarrow> 60)
                                 in (case handle_rate_limit_error (limiter_config cf)
                                            (Some (real_of_int retry_after)) 1 (rate_limiter c1, s1) of
                                       (Inl e, (l, s2)) \<Rightarrow> (Inl e, (c1\<lparr>rate_limiter := l\<rparr>, s2))
                                     | (Inr w, (l, s2)) \<Rightarrow>
                                         (Inl RateLimitError, (c1\<lparr>rate_limiter := l\<rparr>, s2))))
                          else (Inl APIError, (c1, s1)))))"

text \<open>
  The decorator of \<open>_make_request\<close>: \<open>tenacity.retry\<close> with
  \<open>retry_if_exception_type((RequestException, RateLimitError))\<close>, \<open>stop_after_attempt(5)\<close>
  and \<open>wait_exponential(multiplier=1, min=4, max=60)\<close>. An exception of another type
  leaves at once; after the fifth attempt, \<open>RetryError\<close> is raised (\<open>reraise\<close> is not
  set). \<open>left\<close> counts the attempts that may follow the current one.
\<close>

definition retried :: "error \<Rightarrow> bool" where
  "retried e = (e = RequestException \<or> e = RateLimitError)"

definition tenacity_wait :: "nat \<Rightarrow> real" where
  "tenacity_wait attempt_number = max 4 (min (2 ^ (attempt_number - 1)) 60)"

fun make_request_retry ::
  "collector_config \<Rightarrow> pyval \<Rightarrow> nat \<Rightarrow> collector_state \<times> world
     \<Rightarrow> (error + pyval) \<times> (collector_state \<times> world)" where
  "make_request_retry cf after 0 cs =
     (case make_request_once cf after cs of
        (Inr v, cs1) \<Rightarrow> (Inr v, cs1)
      | (Inl e, cs1) \<Rightarrow> if retried e then (Inl (RetryError e), cs1) else (Inl e, cs1))"
| "make_request_retry cf after (Suc left) cs =
     (case make_request_once cf after cs of
        (Inr v, cs1) \<Rightarrow> (Inr v, cs1)
      | (Inl e, (c1, s1)) \<Rightarrow>
          if retried e then
            (case sleep (tenacity_wait (4 - left)) s1 of
               (Inl e', s2) \<Rightarrow> (Inl e', (c1, s2))
             | (Inr u, s2) \<Rightarrow> make_request_retry cf after left (c1, s2))
          else (Inl e, (c1, s1)))"

definition make_request ::
  "collector_config \<Rightarrow> pyval \<Rightarrow> collector_state \<times> world
     \<Rightarrow> (error + pyval) \<times> (collector_state \<times> world)" where
  "make_request cf after cs = make_request_retry cf after 4 cs"

text \<open>
  What the fetch loop does with the response: \<open>len(ads)\<close> and \<open>for ad in ads\<close> (a string
  gives its characters, a dictionary its keys), \<open>"next" not in paging\<close>, and the chain
  \<open>response_data.get("paging", {}).get("cursors", {}).get("after")\<close>.
\<close>

definition items_of :: "pyval \<Rightarrow> error + pyval list" where
  "items_of v =
     (case v of
        PList xs \<Rightarrow> Inr xs
      | PStr s \<Rightarrow> Inr (map (\<lambda>c. PStr [c]) s)
      | PDict d \<Rightarrow> Inr (map (\<lambda>kv. PStr (fst kv)) d)
      | w \<Rightarrow> Inl TypeError)"

fun is_infix :: "string \<Rightarrow> string \<Rightarrow> bool" where
  "is_infix p [] = (p = [])"
| "is_infix p (c # cs) = (take (length p) (c # cs) = p \<or> is_infix p cs)"

definition has_next :: "pyval \<Rightarrow> error + bool" where
  "has_next paging =
     (case paging of
        PDict p \<Rightarrow> Inr (map_of p ''next'' \<noteq> None)
      | PList xs \<Rightarrow> Inr (list_ex (\<lambda>x. py_eq x (PStr ''next'')) xs)
      | PStr s \<Rightarrow> Inr (is_infix ''next'' s)
      | w \<Rightarrow> Inl TypeError)"

definition cursor_after :: "pyval \<Rightarrow> error + pyval" where
  "cursor_after paging =
     (case paging of
        PDict p \<Rightarrow>
          (case get_default p ''cursors'' (PDict []) of
             PDict c \<Rightarrow> Inr (get c ''after'')
           | v \<Rightarrow> Inl AttributeError)
      | v \<Rightarrow> Inl AttributeError)"

text \<open>
  The loop \<open>for ad in ads: yield ad ...\<close> over one page, run to its end: every ad is
  yielded, then counted, and when the count reaches the interval and the page has a
  cursor, \<open>save_cursor\<close> is called and the count starts again. The result is the ads
  yielded and the exception that ended the loop, if one did.
\<close>

fun yield_ads ::
  "collector_config \<Rightarrow> json_lib \<Rightarrow> dict \<Rightarrow> int \<Rightarrow> int \<Rightarrow> string \<Rightarrow> pyval list
     \<Rightarrow> collector_state \<times> world \<Rightarrow> pyval list \<times> error option \<times> (collector_state \<times> world)" where
  "yield_ads cf J response_data total_ads page_count date_range [] cs = ([], None, cs)"
| "yield_ads cf J response_data total_ads page_count date_range (ad # ads) cs =
     (case cs of (c, s) \<Rightarrow>
        let c1 = c\<lparr>records_since_checkpoint := records_since_checkpoint c + 1\<rparr>;
            continue = (\<lambda>cs'.
              case yield_ads cf J response_data total_ads page_count date_range ads cs' of
                (yielded, res) \<Rightarrow> (ad # yielded, res))
        in if records_since_checkpoint c1 \<ge> checkpoint_interval cf then
             (case cursor_after (get_default response_data ''paging'' (PDict [])) of
                Inl e \<Rightarrow> ([ad], Some e, (c1, s))
              | Inr cursor \<Rightarrow>
                  if truthy cursor then
                    (case save_cursor J (checkpoint_config cf) cursor (records_since_checkpoint c1)
                            (Some [(''total_fetched'', PInt total_ads),
                                   (''pages_processed'', PInt page_count),
                                   (''date_range'', PStr date_range)]) s of
                       (Inl e, s') \<Rightarrow> ([ad], Some e, (c1, s'))
                     | (Inr u, s') \<Rightarrow> continue (c1\<lparr>records_since_checkpoint := 0\<rparr>, s'))
                  else continue (c1, s))
           else continue (c1, s))"

text \<open>
  The \<open>while True\<close> loop of \<open>fetch_ads\<close>, run to its end, with fuel for the iterations
  (the server can go on giving pages for ever): \<open>None\<close> is the loop that has not ended
  within the fuel. \<open>after\<close> is the cursor in the request parameters, \<open>acc\<close> the ads yielded
  so far. The loop ends with the final \<open>update_progress\<close>, or with an exception.
\<close>

definition final_checkpoint ::
  "collector_config \<Rightarrow> json_lib \<Rightarrow> int \<Rightarrow> int \<Rightarrow> string \<Rightarrow> pyval list \<Rightarrow> collector_state \<times> world
     \<Rightarrow> pyval list \<times> error option \<times> (collector_state \<times> world)" where
  "final_checkpoint cf J total_ads page_count date_range acc cs =
     (case cs of (c, s) \<Rightarrow>
        (case update_progress J (checkpoint_config cf) (PInt total_ads)
                (Some [(''status'', PStr ''completed''),
                       (''pages_processed'', PInt page_count),
                       (''date_range'', PStr date_range)]) s of
           (Inl e, s') \<Rightarrow> (acc, Some e, (c, s'))
         | (Inr u, s') \<Rightarrow> (acc, None, (c, s'))))"

fun fetch_loop ::
  "nat \<Rightarrow> collector_config \<Rightarrow> json_lib \<Rightarrow> string \<Rightarrow> pyval \<Rightarrow> int \<Rightarrow> int \<Rightarrow> pyval list
     \<Rightarrow> collector_state \<times> world
     \<Rightarrow> (pyval list \<times> error option \<times> (collector_state \<times> world)) option" where
  "fetch_loop 0 cf J date_range after page_count total_ads acc cs = None"
| "fetch_loop (Suc fuel) cf J date_range after page_count total_ads acc cs =
     (case cs of (c, s) \<Rightarrow>
      (case wait_if_needed (limiter_config cf) (rate_limiter c, s) of
         (Inl e, (l, s1)) \<Rightarrow> Some (acc, Some e, (c\<lparr>rate_limiter := l\<rparr>, s1))
       | (Inr w, (l, s1)) \<Rightarrow>
           (case make_request cf after (c\<lparr>rate_limiter := l\<rparr>, s1) of
              (Inl e, cs2) \<Rightarrow>
                if e = RateLimitError
                then fetch_loop fuel cf J date_range after page_count total_ads acc cs2
                else Some (acc, Some e, cs2)
            | (Inr (PDict response_data), cs2) \<Rightarrow>
                (case items_of (get_default response_data ''data'' (PList [])) of
                   Inl e \<Rightarrow> Some (acc, Some e, cs2)
                 | Inr ads \<Rightarrow>
                     (case yield_ads cf J response_data (total_ads + int (length ads))
                             (page_count + 1) date_range ads cs2 of
                        (yielded, Some e, cs3) \<Rightarrow> Some (acc @ yielded, Some e, cs3)
                      | (yielded, None, (c3, s3)) \<Rightarrow>
                          let paging = get_default response_data ''paging'' (PDict []);
                              finish = Some (final_checkpoint cf J (total_ads + int (length ads))
                                               (page_count + 1) date_range (acc @ yielded) (c3, s3))
                          in (case has_next paging of
                                Inl e \<Rightarrow> Some (acc @ yielded, Some e, (c3, s3))
                              | Inr False \<Rightarrow> finish
                              | Inr True \<Rightarrow>
                                  (case cursor_after paging of
                                     Inl e \<Rightarrow> Some (acc @ yielded, Some e, (c3, s3))
                                   | Inr next_cursor \<Rightarrow>
                                       if truthy next_cursor then
                                         fetch_loop fuel cf J date_range next_cursor (page_count + 1)
                                           (total_ads + int (length ads)) (acc @ yielded)
                                           (c3, if (page_count + 1) mod 10 = 0
                                                then s3\<lparr>reads := Suc (reads s3)\<rparr> else s3)
                                       else finish))))
            | (Inr v, cs2) \<Rightarrow> Some (acc, Some AttributeError, cs2))))"

definition fetch_ads ::
  "nat \<Rightarrow> collector_config \<Rightarrow> json_lib \<Rightarrow> string \<Rightarrow> string \<Rightarrow> collector_state \<times> world
     \<Rightarrow> (pyval list \<times> error option \<times> (collector_state \<times> world)) option" where
  "fetch_ads fuel cf J start_date end_date cs =
     (case get_cursor J (checkpoint_config cf) (snd cs) of
        Inl e \<Rightarrow> Some ([], Some e, cs)
      | Inr cursor \<Rightarrow>
          fetch_loop fuel cf J (start_date @ '' to '' @ end_date)
            (if truthy cursor then cursor else PNone) 0 0 [] cs)"

text \<open>
  The values of \<open>records_processed\<close> in the checkpoint files written so far, in the order
  of the writes.
\<close>

definition records_processed_written :: "json_lib \<Rightarrow> world \<Rightarrow> pyval list" where
  "records_processed_written J s =
     map (\<lambda>kd. case json_loads J (snd kd) of
                  Some (PDict d) \<Rightarrow> get d ''records_processed''
                | v \<Rightarrow> PNone)
         (checkpoint_writes s)"

text \<open>
  \<open>MetaAdCollector.authenticate\<close>: one request; status 200 returns \<open>True\<close>, every other
  outcome raises (\<open>RateLimitError\<close> for error code 4, \<open>AuthenticationError\<close> otherwise). It
  never returns \<open>False\<close>.
\<close>

definition authenticate :: "world \<Rightarrow> (error + bool) \<times> world" where
  "authenticate s =
     (let s1 = s\<lparr>sent := sent s @ [PNone]\<rparr>
      in (case server s (length (sent s)) of
            NetworkFailure \<Rightarrow> (Inl AuthenticationError, s1)
          | Response status body hdr \<Rightarrow>
              if status = 200 then
                (case body of
                   None \<Rightarrow> (Inl AuthenticationError, s1)
                 | Some (PDict d) \<Rightarrow>
                     (case items_of (get_default d ''data'' (PList [])) of
                        Inl e \<Rightarrow> (Inl e, s1)
                      | Inr ads \<Rightarrow> (Inr True, s1))
                 | Some v \<Rightarrow> (Inl AttributeError, s1))
              else
                (case body of
                   None \<Rightarrow> (Inl AuthenticationError, s1)
                 | Some (PDict d) \<Rightarrow>
                     (case get_default d ''error'' (PDict []) of
                        PDict e \<Rightarrow>
                          if py_eq (get e ''code'') (PInt 4) then (Inl RateLimitError, s1)
                          else (Inl AuthenticationError, s1)
                      | v \<Rightarrow> (Inl AttributeError, s1))
                 | Some v \<Rightarrow> (Inl AttributeError, s1))))"


text \<open>A collector for examples, with a checkpoint every two records.\<close>

definition demo_collector :: collector_config where
  "demo_collector =
     \<lparr>limiter_config = demo_limiter_config, checkpoint_config = demo_checkpoint_config,
      checkpoint_interval = 2\<rparr>"

definition demo_collector_state :: collector_state where
  "demo_collector_state =
     \<lparr>rate_limiter = demo_limiter, request_count = 0, records_since_checkpoint = 0\<rparr>"


text \<open>
  A run that resumes: the checkpoint is what \<open>save_cursor\<close> wrote in an earlier run, with
  the cursor \<open>c0\<close> and ten processed records, and the server answers with one last page
  of two ads.
\<close>

definition last_page :: pyval where
  "last_page =
     PDict [(''data'', PList [PDict [(''id'', PStr ''1'')], PDict [(''id'', PStr ''2'')]]),
            (''paging'', PDict [(''cursors'', PDict [(''after'', PStr ''c1'')])])]"

definition resumed_world :: world where
  "resumed_world =
     quiet_world
       \<lparr>checkpoints :=
          (checkpoints quiet_world)
            (LocalPath ''.checkpoints/meta_checkpoint.json''
               \<mapsto> mini_dumps (PDict [(''cursor'', PStr ''c0''), (''records_processed'', PInt 10),
                                     (''last_update'', PStr ''2024-01-14T09:30:00Z''),
                                     (''platform'', PStr ''meta'')])),
        server := (\<lambda>k. Response 200 (Some last_page) NoHeader)\<rparr>"

section \<open>The orchestrator: BaseAdCollector.run (collectors/base.py)\<close>

text \<open>
  \<open>run\<close> is written against the interface of a collector: \<open>authenticate\<close>, \<open>fetch_ads\<close>,
  \<open>transform_ad\<close> and \<open>validate_record\<close>. \<open>fetch_ads\<close> returns a generator, which the loop
  of \<open>run\<close> asks for one item at a time: \<open>next_ad\<close> is Python's \<open>next\<close> on it, and gives
  an item, the end of the stream, or the exception the generator raises. An interrupt of
  the user is the exception \<open>KeyboardInterrupt\<close>.
\<close>

datatype step = Yield pyval | Done | Raise error

record 'g collector =
  authenticate_of :: "world \<Rightarrow> (error + bool) \<times> world"
  next_ad :: "'g \<Rightarrow> world \<Rightarrow> step \<times> 'g \<times> world"
  transform_of :: "pyval \<Rightarrow> world \<Rightarrow> (error + dict) \<times> world"
  validate_of :: "dict \<Rightarrow> error + (bool \<times> string option)"

record run_stats =
  records_fetched :: nat
  records_valid :: nat
  records_invalid :: nat
  validation_errors :: "(pyval \<times> string option) list"
  interrupted :: bool
  error_text :: "error option"
  manifest_of :: "dict option"

definition initial_stats :: run_stats where
  "initial_stats =
     \<lparr>records_fetched = 0, records_valid = 0, records_invalid = 0, validation_errors = [],
      interrupted = False, error_text = None, manifest_of = None\<rparr>"

text \<open>
  The \<open>for\<close> loop inside the \<open>try\<close> block, with fuel for its iterations. It ends at the
  end of the stream or with the exception that left it; the statistics and the writer are
  as the loop left them.
\<close>

fun run_loop ::
  "nat \<Rightarrow> 'g collector \<Rightarrow> writer_config \<Rightarrow> bool \<Rightarrow> 'g \<Rightarrow> run_stats \<Rightarrow> writer_state \<times> world
     \<Rightarrow> (error option \<times> run_stats \<times> (writer_state \<times> world)) option" where
  "run_loop 0 A wcf dry_run g stats ws = None"
| "run_loop (Suc fuel) A wcf dry_run g stats ws =
     (case ws of (w, s) \<Rightarrow>
      (case next_ad A g s of
         (Done, g', s1) \<Rightarrow> Some (None, stats, (w, s1))
       | (Raise e, g', s1) \<Rightarrow> Some (Some e, stats, (w, s1))
       | (Yield raw_ad, g', s1) \<Rightarrow>
           let stats1 = stats\<lparr>records_fetched := records_fetched stats + 1\<rparr>
           in (case transform_of A raw_ad s1 of
                 (Inl e, s2) \<Rightarrow> Some (Some e, stats1, (w, s2))
               | (Inr transformed, s2) \<Rightarrow>
                   (case validate_of A transformed of
                      Inl e \<Rightarrow> Some (Some e, stats1, (w, s2))
                    | Inr (is_valid, err) \<Rightarrow>
                        if \<not> is_valid then
                          run_loop fuel A wcf dry_run g'
                            (stats1\<lparr>records_invalid := records_invalid stats1 + 1,
                                    validation_errors :=
                                      (if length (validation_errors stats1) < 100
                                       then validation_errors stats1
                                              @ [(get_default transformed ''ad_id'' (PStr ''unknown''), err)]
                                       else validation_errors stats1)\<rparr>)
                            (w, s2)
                        else
                          let stats2 = stats1\<lparr>records_valid := records_valid stats1 + 1\<rparr>
                          in if \<not> dry_run then
                               (case write_record wcf (PDict transformed) (w, s2) of
                                  (Inl e, ws') \<Rightarrow> Some (Some e, stats2, ws')
                                | (Inr u, ws') \<Rightarrow> run_loop fuel A wcf dry_run g' stats2 ws')
                             else run_loop fuel A wcf dry_run g' stats2 (w, s2)))))"

text \<open>
  \<open>run\<close>: the loop, the two handlers and the \<open>finally\<close> block. \<open>KeyboardInterrupt\<close> is
  noted in the statistics, which are returned; any other exception is noted and raised
  again. In both cases, and at the end of the stream, the \<open>finally\<close> block finalizes the
  output unless the run is a dry run; an exception of \<open>finalize\<close> replaces the result.
  The method starts with the loop: it does not call \<open>authenticate\<close>.
\<close>

definition run ::
  "nat \<Rightarrow> 'g collector \<Rightarrow> writer_config \<Rightarrow> bool \<Rightarrow> 'g \<Rightarrow> writer_state \<times> world
     \<Rightarrow> ((error + run_stats) \<times> (writer_state \<times> world)) option" where
  "run fuel A wcf dry_run g ws =
     (case run_loop fuel A wcf dry_run g initial_stats ws of
        None \<Rightarrow> None
      | Some (outcome, stats, ws1) \<Rightarrow>
          let stats1 = (case outcome of
                          None \<Rightarrow> stats
                        | Some e \<Rightarrow> if e = KeyboardInterrupt then stats\<lparr>interrupted := True\<rparr>
                                    else stats\<lparr>error_text := Some e\<rparr>);
              result = (\<lambda>st. case outcome of
                          None \<Rightarrow> Inr st
                        | Some e \<Rightarrow> if e = KeyboardInterrupt then Inr st else Inl e)
          in if \<not> dry_run then
               (case finalize wcf ws1 of
                  (Inl e, ws2) \<Rightarrow> Some (Inl e, ws2)
                | (Inr manifest, ws2) \<Rightarrow> Some (result (stats1\<lparr>manifest_of := Some manifest\<rparr>), ws2))
             else Some (result stats1, ws1))"

text \<open>
  A collector for examples: the Meta collector's \<open>authenticate\<close>, \<open>transform_ad\<close> and
  \<open>validate_record\<close>, with a fetch stream that yields the items of a list.
\<close>

definition list_next :: "pyval list \<Rightarrow> world \<Rightarrow> step \<times> pyval list \<times> world" where
  "list_next g s = (case g of [] \<Rightarrow> (Done, [], s) | x # r \<Rightarrow> (Yield x, r, s))"

definition demo_meta :: "pyval list collector" where
  "demo_meta =
     \<lparr>authenticate_of = authenticate, next_ad = list_next,
      transform_of = transform_ad demo_pylib demo_helpers ''v21.0'',
      validate_of = validate_record demo_pylib\<rparr>"

definition demo_writer :: writer_config where
  "demo_writer =
     \<lparr>ow_platform = ''meta'', ow_mode = ''local'', ow_bucket_name = None, batch_size = 2,
      compress = False, extraction_id = ''20240115_120000'', output_dir = ''output/meta''\<rparr>"

definition fresh_writer :: writer_state where
  "fresh_writer = \<lparr>current_batch = [], batch_count = 0, total_records = 0, batch_files = []\<rparr>"

chapter \<open>The properties\<close>

section \<open>OutputWriter: batching exactness\<close>

text \<open>
  The sequence number in a batch file name is formatted injectively, so the batch files of
  one run have different names, and none of them is the manifest.
\<close>

lemma of_char_digit: "d < 10 \<Longrightarrow> of_char (digit d) = (48 + d :: nat)"
proof -
  assume "d < 10"
  then have "d \<in> {0, 1, 2, 3, 4, 5, 6, 7, 8, 9}" by auto
  then show ?thesis by (auto simp: digit_def)
qed

lemma digits_value_snoc: "digits_value (s @ [c]) = 10 * digits_value s + (of_char c - 48)"
  by (simp add: digits_value_def)

lemma digits_value_str_nat: "digits_value (str_nat n) = n"
proof (induction n rule: str_nat.induct)
  case (1 n)
  show ?case
  proof (cases "n < 10")
    case True
    then show ?thesis
      by (subst str_nat.simps) (simp add: digits_value_def of_char_digit)
  next
    case False
    then have "digits_value (str_nat (n div 10)) = n div 10" using 1 by simp
    with False show ?thesis
      by (subst str_nat.simps) (simp add: digits_value_snoc of_char_digit)
  qed
qed

lemma digits_value_zeros: "digits_value (replicate k CHR ''0'' @ s) = digits_value s"
proof -
  have "foldl (\<lambda>a c. 10 * a + (of_char c - 48)) (0::nat) (replicate k CHR ''0'') = 0"
    by (induction k) simp_all
  then show ?thesis by (simp add: digits_value_def)
qed

lemma zfill4_str_nat_inj: "zfill4 (str_nat a) = zfill4 (str_nat b) \<Longrightarrow> a = b"
proof -
  assume h: "zfill4 (str_nat a) = zfill4 (str_nat b)"
  have "digits_value (zfill4 (str_nat n)) = n" for n
    by (simp add: zfill4_def digits_value_zeros digits_value_str_nat)
  then show ?thesis using h by metis
qed

lemma batch_filename_inj: "batch_filename cf a = batch_filename cf b \<Longrightarrow> a = b"
  by (auto simp: batch_filename_def dest: zfill4_str_nat_inj)

lemma batch_filename_not_manifest: "batch_filename cf a \<noteq> manifest_filename cf"
  by (simp add: batch_filename_def manifest_filename_def)

lemma path_join_inj:
  "f1 \<noteq> [] \<Longrightarrow> f2 \<noteq> [] \<Longrightarrow> hd f1 = hd f2 \<Longrightarrow> path_join d f1 = path_join d f2 \<Longrightarrow> f1 = f2"
  by (auto simp: path_join_def split: if_splits)

lemma hd_batch_filename:
  "hd (batch_filename cf a) = hd (ow_platform cf @ ''_'')" "batch_filename cf a \<noteq> []"
  "hd (manifest_filename cf) = hd (ow_platform cf @ ''_'')" "manifest_filename cf \<noteq> []"
  by (cases "ow_platform cf"; simp add: batch_filename_def manifest_filename_def)+

lemma file_key_inj_batch:
  "file_key cf (batch_filename cf a) = Some k \<Longrightarrow> file_key cf (batch_filename cf b) = Some k \<Longrightarrow> a = b"
  by (auto simp: file_key_def hd_batch_filename split: if_splits option.splits
           dest!: path_join_inj [rotated 3] batch_filename_inj)

lemma file_key_batch_not_manifest:
  "file_key cf (batch_filename cf a) = Some k \<Longrightarrow> file_key cf (manifest_filename cf) \<noteq> Some k"
  using batch_filename_not_manifest [of cf a]
  by (auto simp: file_key_def hd_batch_filename split: if_splits option.splits
           dest!: path_join_inj [rotated 3])

lemma usable_file_key: "usable cf \<Longrightarrow> \<exists>k. file_key cf f = Some k"
  by (auto simp: usable_def file_key_def)

lemma store_usable:
  "usable cf \<Longrightarrow> \<forall>k. \<not> broken s k \<Longrightarrow> file_key cf f = Some k
    \<Longrightarrow> store cf f b s = Some (s\<lparr>files := (files s)(k \<mapsto> b)\<rparr>)"
  by (auto simp: usable_def store_def put_def)

lemma written_step:
  assumes u: "usable cf" and B: "0 < B" "batch_size cf = int B"
    and w: "written cf B s0 xs ws"
  shows "\<exists>ws'. write_record cf r ws = (Inr (), ws') \<and> written cf B s0 (xs @ [r]) ws'"
proof -
  obtain w s where ws: "ws = (w, s)" by (cases ws)
  let ?n = "length xs" and ?q = "length xs div B"
  have qB: "?q * B \<le> ?n" by (simp add: div_times_less_eq_dividend)
  have cb: "current_batch w = drop (?q * B) xs" and bc: "batch_count w = ?q"
    and tr: "total_records w = ?n"
    and bf: "batch_files w = map (batch_filename cf) [1..<Suc ?q]"
    and fs: "\<forall>i<?q. \<exists>k. file_key cf (batch_filename cf (Suc i)) = Some k
             \<and> files s k = Some (Ndjson (take B (drop (i * B) xs)) (compress cf))"
    and fr: "\<forall>k. (\<forall>i<?q. file_key cf (batch_filename cf (Suc i)) \<noteq> Some k) \<longrightarrow> files s k = files s0 k"
    and nb: "\<forall>k. \<not> broken s k" and rd: "reads s = reads s0" "utc s = utc s0"
    using w by (simp_all add: written_def ws)
  have lcb: "length (current_batch w) = ?n mod B"
    using cb by (simp add: minus_div_mult_eq_mod [symmetric] mult.commute)
  have old: "take B (drop (i * B) (xs @ [r])) = take B (drop (i * B) xs)" if "i < ?q" for i
  proof -
    have "Suc i \<le> ?q" using that by simp
    then have "Suc i * B \<le> ?q * B" by (rule mult_le_mono1)
    then have "Suc i * B \<le> ?n" using qB by (rule le_trans)
    then have "i * B + B \<le> ?n" by (simp add: add.commute)
    then show ?thesis by simp
  qed
  show ?thesis
  proof (cases "Suc (?n mod B) = B")
    case False
    then have lt: "Suc (?n mod B) < B" using B(1) by (meson Suc_lessI mod_less_divisor)
    have q': "Suc ?n div B = ?q" using False by (simp add: div_Suc mod_Suc)
    have "write_record cf r ws
        = (Inr (), (w\<lparr>current_batch := current_batch w @ [r], total_records := total_records w + 1\<rparr>, s))"
      using lt by (simp add: write_record_def ws lcb B(2) Let_def)
    moreover have "written cf B s0 (xs @ [r])
        (w\<lparr>current_batch := current_batch w @ [r], total_records := total_records w + 1\<rparr>, s)"
    proof -
      have c: "\<forall>i<?q. \<exists>k. file_key cf (batch_filename cf (Suc i)) = Some k
             \<and> files s k = Some (Ndjson (take B (drop (i * B) (xs @ [r]))) (compress cf))"
        using fs old by metis
      have a: "drop (?q * B) (xs @ [r]) = current_batch w @ [r]" using qB cb by simp
      show ?thesis
        unfolding written_def using a bc tr bf c fr nb rd
        by (simp add: q' del: upt_Suc drop_append take_append)
    qed
    ultimately show ?thesis by blast
  next
    case True
    have q': "Suc ?n div B = Suc ?q" using True by (simp add: div_Suc mod_Suc)
    have full: "Suc ?n = Suc ?q * B"
      using True by (metis add_Suc_right div_mult_mod_eq mult_Suc add.commute)
    obtain k where k: "file_key cf (batch_filename cf (Suc ?q)) = Some k"
      using usable_file_key [OF u] by blast
    let ?w' = "w\<lparr>current_batch := [], total_records := Suc ?n, batch_count := Suc ?q,
                 batch_files := batch_files w @ [batch_filename cf (Suc ?q)]\<rparr>"
    let ?s' = "s\<lparr>files := (files s)(k \<mapsto> Ndjson (current_batch w @ [r]) (compress cf))\<rparr>"
    have "write_record cf r ws = (Inr (), (?w', ?s'))"
      using True by (simp add: write_record_def ws lcb B(2) flush_batch_def bc tr
                        store_usable [OF u nb k] Let_def)
    moreover have "written cf B s0 (xs @ [r]) (?w', ?s')"
    proof -
      have a: "drop (Suc ?q * B) (xs @ [r]) = []" using full by simp
      have b: "map (batch_filename cf) [1..<Suc (Suc ?q)]
                 = batch_files w @ [batch_filename cf (Suc ?q)]" by (simp add: bf)
      have new: "take B (drop (?q * B) (xs @ [r])) = current_batch w @ [r]"
        using qB lcb True by (simp add: cb)
      have c: "\<exists>k'. file_key cf (batch_filename cf (Suc i)) = Some k'
             \<and> files ?s' k' = Some (Ndjson (take B (drop (i * B) (xs @ [r]))) (compress cf))"
        if "i < Suc ?q" for i
      proof (cases "i = ?q")
        case True
        then show ?thesis using k new by simp
      next
        case False
        then have i: "i < ?q" using that by simp
        then obtain k' where k': "file_key cf (batch_filename cf (Suc i)) = Some k'"
          "files s k' = Some (Ndjson (take B (drop (i * B) xs)) (compress cf))"
          using fs by blast
        have "k' \<noteq> k" using file_key_inj_batch [OF k'(1), of "Suc ?q"] k i by auto
        then show ?thesis using k' old [OF i] by simp
      qed
      have d: "files ?s' k' = files s0 k'"
        if "\<forall>i<Suc ?q. file_key cf (batch_filename cf (Suc i)) \<noteq> Some k'" for k'
      proof -
        have "k' \<noteq> k" using that k by auto
        moreover have "files s k' = files s0 k'" using that fr by simp
        ultimately show ?thesis by simp
      qed
      show ?thesis
        unfolding written_def using a b c d nb rd
        by (simp add: q' del: upt_Suc mult_Suc)
    qed
    ultimately show ?thesis by blast
  qed
qed

lemma ceil_div_eq: "0 < b \<Longrightarrow> ceil_div n b = n div b + (if n mod b = 0 then 0 else 1)"
proof -
  assume b: "0 < b"
  have "\<lceil>real n / real b\<rceil> = - (- int n div int b)"
    using ceiling_divide_eq_div [of "int n" "int b"] by simp
  also have "\<dots> = int (n div b) + (if n mod b = 0 then 0 else 1)"
  proof -
    have "int n mod int b = 0 \<longleftrightarrow> n mod b = 0"
      by (metis of_nat_eq_0_iff zmod_int)
    then show ?thesis
      using b zdiv_zminus1_eq_if [of "int b" "int n"] by (simp add: zdiv_int)
  qed
  finally have "\<lceil>real n / real b\<rceil> = int (n div b + (if n mod b = 0 then 0 else 1))" by simp
  then show ?thesis unfolding ceil_div_def by (simp only: nat_int)
qed

lemma written_init:
  "\<forall>k. \<not> broken s0 k \<Longrightarrow>
   written cf B s0 [] (\<lparr>current_batch = [], batch_count = 0, total_records = 0, batch_files = []\<rparr>, s0)"
  by (simp add: written_def)

lemma written_all:
  assumes u: "usable cf" and B: "0 < B" "batch_size cf = int B"
  shows "written cf B s0 xs ws
    \<Longrightarrow> \<exists>ws'. write_records cf ys ws = (Inr (), ws') \<and> written cf B s0 (xs @ ys) ws'"
proof (induction ys arbitrary: xs ws)
  case Nil
  then show ?case by simp
next
  case (Cons y ys)
  obtain ws1 where 1: "write_record cf y ws = (Inr (), ws1)" "written cf B s0 (xs @ [y]) ws1"
    using written_step [OF u B Cons.prems] by blast
  obtain ws2 where 2: "write_records cf ys ws1 = (Inr (), ws2)"
    "written cf B s0 ((xs @ [y]) @ ys) ws2"
    using Cons.IH [OF 1(2)] by blast
  show ?case using 1 2 by simp
qed

lemma init_usable:
  "OutputWriter_init platform mode bucket bsize base compr stamp = Inr (cf, w0)
   \<Longrightarrow> usable cf \<and> batch_size cf = bsize \<and> compress cf = compr
     \<and> w0 = \<lparr>current_batch = [], batch_count = 0, total_records = 0, batch_files = []\<rparr>"
  by (auto simp: OutputWriter_init_def usable_def Let_def split: if_splits)

lemma chunk_length:
  assumes B: "0 < B" and i: "i < ceil_div (length xs) B"
  shows "length (take B (drop (i * B) xs))
       = (if Suc i < ceil_div (length xs) B then B
          else if length xs mod B = 0 then B else length xs mod B)"
proof -
  let ?n = "length xs" and ?q = "length xs div B"
  have C: "ceil_div ?n B = ?q + (if ?n mod B = 0 then 0 else 1)" by (rule ceil_div_eq [OF B])
  have n: "?n = ?q * B + ?n mod B" by simp
  show ?thesis
  proof (cases "Suc i \<le> ?q")
    case True
    then have "Suc i * B \<le> ?q * B" by (rule mult_le_mono1)
    moreover have "?q * B \<le> ?n" by (simp add: div_times_less_eq_dividend)
    ultimately have "Suc i * B \<le> ?n" by (rule le_trans)
    then have "i * B + B \<le> ?n" by (simp add: add.commute)
    then have "length (take B (drop (i * B) xs)) = B" by simp
    moreover have "\<not> Suc i < ceil_div ?n B \<Longrightarrow> ?n mod B = 0"
      using True C by (auto split: if_splits)
    ultimately show ?thesis by simp
  next
    case False
    then have iq: "i = ?q" and m: "?n mod B \<noteq> 0" using i C by (auto split: if_splits)
    have "?n - ?q * B = ?n mod B" by (simp add: minus_div_mult_eq_mod)
    then have "length (take B (drop (i * B) xs)) = ?n mod B"
      using B iq by (simp add: min_def)
    then show ?thesis using m iq C by simp
  qed
qed

lemma finalize_written:
  assumes u: "usable cf" and B: "0 < B"
    and w: "written cf B s0 xs (w, s)"
  shows "\<exists>m w' s'. finalize cf (w, s) = (Inr m, (w', s'))
     \<and> batch_files w' = map (batch_filename cf) [1..<Suc (ceil_div (length xs) B)]
     \<and> (\<forall>i<ceil_div (length xs) B. \<exists>k. file_key cf (batch_filename cf (Suc i)) = Some k
           \<and> files s' k = Some (Ndjson (take B (drop (i * B) xs)) (compress cf)))
     \<and> (\<exists>k. file_key cf (manifest_filename cf) = Some k \<and> files s' k = Some (Manifest m))
     \<and> (\<forall>k. (\<forall>i<ceil_div (length xs) B. file_key cf (batch_filename cf (Suc i)) \<noteq> Some k)
            \<and> file_key cf (manifest_filename cf) \<noteq> Some k \<longrightarrow> files s' k = files s0 k)
     \<and> m = make_manifest cf w' (utc s0 (reads s0) @ ''Z'')
     \<and> total_records w' = length xs \<and> batch_count w' = ceil_div (length xs) B"
proof -
  let ?n = "length xs" and ?q = "length xs div B"
  have cb: "current_batch w = drop (?q * B) xs" and bc: "batch_count w = ?q"
    and tr: "total_records w = ?n"
    and bf: "batch_files w = map (batch_filename cf) [1..<Suc ?q]"
    and fs: "\<forall>i<?q. \<exists>k. file_key cf (batch_filename cf (Suc i)) = Some k
             \<and> files s k = Some (Ndjson (take B (drop (i * B) xs)) (compress cf))"
    and fr: "\<forall>k. (\<forall>i<?q. file_key cf (batch_filename cf (Suc i)) \<noteq> Some k) \<longrightarrow> files s k = files s0 k"
    and nb: "\<forall>k. \<not> broken s k" and rd: "reads s = reads s0" "utc s = utc s0"
    using w by (simp_all add: written_def)
  have C: "ceil_div ?n B = ?q + (if ?n mod B = 0 then 0 else 1)" by (rule ceil_div_eq [OF B])
  have lcb: "length (current_batch w) = ?n mod B"
    using cb by (simp add: minus_div_mult_eq_mod [symmetric] mult.commute)
  obtain km where km: "file_key cf (manifest_filename cf) = Some km"
    using usable_file_key [OF u] by blast
  \<comment> \<open>the state after the flush of the remainder\<close>
  have "\<exists>r w1 s1. flush_batch cf (w, s) = (Inr r, (w1, s1))
      \<and> batch_files w1 = map (batch_filename cf) [1..<Suc (ceil_div ?n B)]
      \<and> (\<forall>i<ceil_div ?n B. \<exists>k. file_key cf (batch_filename cf (Suc i)) = Some k
            \<and> files s1 k = Some (Ndjson (take B (drop (i * B) xs)) (compress cf)))
      \<and> (\<forall>k. (\<forall>i<ceil_div ?n B. file_key cf (batch_filename cf (Suc i)) \<noteq> Some k)
            \<longrightarrow> files s1 k = files s0 k)
      \<and> (\<forall>k. \<not> broken s1 k) \<and> reads s1 = reads s0 \<and> utc s1 = utc s0
      \<and> total_records w1 = ?n \<and> batch_count w1 = ceil_div ?n B"
  proof (cases "?n mod B = 0")
    case True
    then have "current_batch w = []" using lcb by simp
    then have "flush_batch cf (w, s) = (Inr None, (w, s))" by (simp add: flush_batch_def)
    moreover have "ceil_div ?n B = ?q" using C True by simp
    ultimately show ?thesis using bf fs fr nb rd tr bc by simp
  next
    case False
    then have ne: "current_batch w \<noteq> []" using lcb by auto
    have Cq: "ceil_div ?n B = Suc ?q" using C False by simp
    obtain k where k: "file_key cf (batch_filename cf (Suc ?q)) = Some k"
      using usable_file_key [OF u] by blast
    let ?w1 = "w\<lparr>batch_count := Suc ?q,
                 batch_files := batch_files w @ [batch_filename cf (Suc ?q)], current_batch := []\<rparr>"
    let ?s1 = "s\<lparr>files := (files s)(k \<mapsto> Ndjson (current_batch w) (compress cf))\<rparr>"
    have fl: "flush_batch cf (w, s) = (Inr (Some (batch_filename cf (Suc ?q))), (?w1, ?s1))"
      using ne by (simp add: flush_batch_def bc store_usable [OF u nb k] Let_def)
    have new: "take B (drop (?q * B) xs) = current_batch w"
      using lcb B by (simp add: cb)
    have c: "\<exists>k'. file_key cf (batch_filename cf (Suc i)) = Some k'
           \<and> files ?s1 k' = Some (Ndjson (take B (drop (i * B) xs)) (compress cf))"
      if "i < Suc ?q" for i
    proof (cases "i = ?q")
      case True
      then show ?thesis using k new by simp
    next
      case False
      then have i: "i < ?q" using that by simp
      then obtain k' where k': "file_key cf (batch_filename cf (Suc i)) = Some k'"
        "files s k' = Some (Ndjson (take B (drop (i * B) xs)) (compress cf))"
        using fs by blast
      have "k' \<noteq> k" using file_key_inj_batch [OF k'(1), of "Suc ?q"] k i by auto
      then show ?thesis using k' by simp
    qed
    have d: "files ?s1 k' = files s0 k'"
      if "\<forall>i<Suc ?q. file_key cf (batch_filename cf (Suc i)) \<noteq> Some k'" for k'
    proof -
      have "k' \<noteq> k" using that k by auto
      moreover have "files s k' = files s0 k'" using that fr by simp
      ultimately show ?thesis by simp
    qed
    have b: "batch_files ?w1 = map (batch_filename cf) [1..<Suc (Suc ?q)]" by (simp add: bf)
    show ?thesis
      unfolding Cq using fl b c d nb rd tr by (simp del: upt_Suc)
  qed
  then obtain r w1 s1 where fl: "flush_batch cf (w, s) = (Inr r, (w1, s1))"
    and bf1: "batch_files w1 = map (batch_filename cf) [1..<Suc (ceil_div ?n B)]"
    and fs1: "\<forall>i<ceil_div ?n B. \<exists>k. file_key cf (batch_filename cf (Suc i)) = Some k
            \<and> files s1 k = Some (Ndjson (take B (drop (i * B) xs)) (compress cf))"
    and fr1: "\<forall>k. (\<forall>i<ceil_div ?n B. file_key cf (batch_filename cf (Suc i)) \<noteq> Some k)
            \<longrightarrow> files s1 k = files s0 k"
    and nb1: "\<forall>k. \<not> broken s1 k" and rd1: "reads s1 = reads s0" "utc s1 = utc s0"
    and tr1: "total_records w1 = ?n" and bc1: "batch_count w1 = ceil_div ?n B"
    by blast
  let ?m = "make_manifest cf w1 (utc s0 (reads s0) @ ''Z'')"
  let ?s2 = "s1\<lparr>reads := Suc (reads s0), files := (files s1)(km \<mapsto> Manifest ?m)\<rparr>"
  have st: "store cf (manifest_filename cf) (Manifest ?m) (s1\<lparr>reads := Suc (reads s0)\<rparr>) = Some ?s2"
    using store_usable [OF u _ km, of "s1\<lparr>reads := Suc (reads s0)\<rparr>"] nb1 by simp
  have fin: "finalize cf (w, s) = (Inr ?m, (w1, ?s2))"
    by (simp add: finalize_def fl utcnow_z_def rd1 st Let_def)
  have c: "\<exists>k. file_key cf (batch_filename cf (Suc i)) = Some k
           \<and> files ?s2 k = Some (Ndjson (take B (drop (i * B) xs)) (compress cf))"
    if i: "i < ceil_div ?n B" for i
  proof -
    obtain k where k: "file_key cf (batch_filename cf (Suc i)) = Some k"
      "files s1 k = Some (Ndjson (take B (drop (i * B) xs)) (compress cf))"
      using fs1 i by blast
    have "k \<noteq> km" using file_key_batch_not_manifest [OF k(1)] km by auto
    then show ?thesis using k by simp
  qed
  have d: "files ?s2 k = files s0 k"
    if "\<forall>i<ceil_div ?n B. file_key cf (batch_filename cf (Suc i)) \<noteq> Some k"
      "file_key cf (manifest_filename cf) \<noteq> Some k" for k
    using that fr1 km by auto
  have c': "\<forall>i<ceil_div ?n B. \<exists>k. file_key cf (batch_filename cf (Suc i)) = Some k
           \<and> files ?s2 k = Some (Ndjson (take B (drop (i * B) xs)) (compress cf))"
    using c by blast
  have d': "\<forall>k. (\<forall>i<ceil_div ?n B. file_key cf (batch_filename cf (Suc i)) \<noteq> Some k)
            \<and> file_key cf (manifest_filename cf) \<noteq> Some k \<longrightarrow> files ?s2 k = files s0 k"
    using d by blast
  have e: "\<exists>k. file_key cf (manifest_filename cf) = Some k \<and> files ?s2 k = Some (Manifest ?m)"
    using km by simp
  show ?thesis
    using fin bf1 c' d' e tr1 bc1 by blast
qed

text \<open>
  Claim C2. For every \<open>N \<ge> 0\<close> records written one at a time with \<open>write_record\<close> by
  a freshly constructed writer with batch capacity \<open>B \<ge> 1\<close>, followed by \<open>finalize\<close>, on a
  storage that does not fail: exactly \<open>ceil (N / B)\<close> batch files are produced, named with
  the sequence numbers \<open>1, 2, ...\<close>; file \<open>i\<close> (counted from 0) holds the records
  \<open>i * B, ..., i * B + B - 1\<close> of the input, so \<open>B\<close> records, except the last one, which
  holds \<open>N mod B\<close> records (or \<open>B\<close> when \<open>B\<close> divides \<open>N\<close>); nothing else is written but
  the manifest; and the manifest has \<open>total_records = N\<close> and
  \<open>total_batches = ceil (N / B)\<close> and lists the batch files.
\<close>

theorem batching_exactness:
  assumes init: "OutputWriter_init platform mode bucket (int B) base compr stamp = Inr (cf, w0)"
    and B: "1 \<le> B"
    and healthy: "\<forall>k. \<not> broken s0 k"
  shows "\<exists>ws m w s.
      write_records cf recs (w0, s0) = (Inr (), ws)
    \<and> finalize cf ws = (Inr m, (w, s))
    \<and> length (batch_files w) = ceil_div (length recs) B
    \<and> distinct (batch_files w)
    \<and> (\<forall>i<ceil_div (length recs) B.
          batch_files w ! i = batch_filename cf (Suc i)
        \<and> (\<exists>k rs. file_key cf (batch_files w ! i) = Some k
              \<and> files s k = Some (Ndjson rs compr)
              \<and> rs = take B (drop (i * B) recs)
              \<and> length rs = (if Suc i < ceil_div (length recs) B then B
                              else if length recs mod B = 0 then B else length recs mod B)))
    \<and> (\<forall>k. files s k \<noteq> files s0 k \<longrightarrow>
          file_key cf (manifest_filename cf) = Some k
        \<or> (\<exists>i<ceil_div (length recs) B. file_key cf (batch_files w ! i) = Some k))
    \<and> (\<exists>k. file_key cf (manifest_filename cf) = Some k \<and> files s k = Some (Manifest m))
    \<and> map_of m ''total_records'' = Some (PInt (int (length recs)))
    \<and> map_of m ''total_batches'' = Some (PInt (int (ceil_div (length recs) B)))
    \<and> map_of m ''batch_files'' = Some (PList (map PStr (batch_files w)))"
proof -
  let ?C = "ceil_div (length recs) B"
  have B0: "0 < B" using B by simp
  have u: "usable cf" and bs: "batch_size cf = int B" and cm: "compress cf = compr"
    and w0: "w0 = \<lparr>current_batch = [], batch_count = 0, total_records = 0, batch_files = []\<rparr>"
    using init_usable [OF init] by simp_all
  have "written cf B s0 [] (w0, s0)" unfolding w0 by (rule written_init [OF healthy])
  then obtain ws where ws: "write_records cf recs (w0, s0) = (Inr (), ws)"
    and wr: "written cf B s0 recs ws"
    using written_all [OF u B0 bs, of s0 "[]" "(w0, s0)" recs] by auto
  obtain w1 s1 where ws1: "ws = (w1, s1)" by (cases ws)
  obtain m w s where fin: "finalize cf ws = (Inr m, (w, s))"
    and bf: "batch_files w = map (batch_filename cf) [1..<Suc ?C]"
    and fs: "\<forall>i<?C. \<exists>k. file_key cf (batch_filename cf (Suc i)) = Some k
           \<and> files s k = Some (Ndjson (take B (drop (i * B) recs)) (compress cf))"
    and mf: "\<exists>k. file_key cf (manifest_filename cf) = Some k \<and> files s k = Some (Manifest m)"
    and fr: "\<forall>k. (\<forall>i<?C. file_key cf (batch_filename cf (Suc i)) \<noteq> Some k)
            \<and> file_key cf (manifest_filename cf) \<noteq> Some k \<longrightarrow> files s k = files s0 k"
    and m: "m = make_manifest cf w (utc s0 (reads s0) @ ''Z'')"
    and tr: "total_records w = length recs" and bc: "batch_count w = ?C"
    using finalize_written [OF u B0 wr [unfolded ws1]] unfolding ws1 by blast
  have len: "length (batch_files w) = ?C" by (simp add: bf)
  have nth: "batch_files w ! i = batch_filename cf (Suc i)" if "i < ?C" for i
    using that unfolding bf by (simp del: upt_Suc add: nth_map_upt)
  have "inj (batch_filename cf)" by (rule injI) (rule batch_filename_inj)
  then have dist: "distinct (batch_files w)"
    unfolding bf by (simp add: distinct_map inj_on_def del: upt_Suc)
  have each: "batch_files w ! i = batch_filename cf (Suc i)
      \<and> (\<exists>k rs. file_key cf (batch_files w ! i) = Some k
            \<and> files s k = Some (Ndjson rs compr)
            \<and> rs = take B (drop (i * B) recs)
            \<and> length rs = (if Suc i < ?C then B
                            else if length recs mod B = 0 then B else length recs mod B))"
    if i: "i < ?C" for i
    using fs i nth [OF i] chunk_length [OF B0 i] cm by auto
  have frame: "file_key cf (manifest_filename cf) = Some k
        \<or> (\<exists>i<?C. file_key cf (batch_files w ! i) = Some k)"
    if "files s k \<noteq> files s0 k" for k
    using that fr nth by metis
  have man: "map_of m ''total_records'' = Some (PInt (int (length recs)))"
    "map_of m ''total_batches'' = Some (PInt (int ?C))"
    "map_of m ''batch_files'' = Some (PList (map PStr (batch_files w)))"
    by (simp_all add: m make_manifest_def tr bc)
  show ?thesis
    using ws fin len dist each frame mf man by blast
qed

text \<open>
  The hypotheses hold for a writer in local mode with capacity 2 that is given three
  records: two batch files, and a manifest that counts three records.
\<close>

theorem batching_exactness_witness:
  "OutputWriter_init ''meta'' ''local'' None (int 2) ''output'' False ''20240115_120000''
     = Inr (\<lparr>ow_platform = ''meta'', ow_mode = ''local'', ow_bucket_name = None, batch_size = 2,
              compress = False, extraction_id = ''20240115_120000'', output_dir = ''output/meta''\<rparr>,
            \<lparr>current_batch = [], batch_count = 0, total_records = 0, batch_files = []\<rparr>)
   \<and> (1::nat) \<le> 2
   \<and> (\<forall>k. \<not> broken quiet_world k)
   \<and> (\<exists>ws m w s.
        write_records
          \<lparr>ow_platform = ''meta'', ow_mode = ''local'', ow_bucket_name = None, batch_size = 2,
            compress = False, extraction_id = ''20240115_120000'', output_dir = ''output/meta''\<rparr>
          [PDict [(''ad_id'', PStr ''0'')], PDict [(''ad_id'', PStr ''1'')], PDict [(''ad_id'', PStr ''2'')]]
          (\<lparr>current_batch = [], batch_count = 0, total_records = 0, batch_files = []\<rparr>, quiet_world)
          = (Inr (), ws)
      \<and> finalize
          \<lparr>ow_platform = ''meta'', ow_mode = ''local'', ow_bucket_name = None, batch_size = 2,
            compress = False, extraction_id = ''20240115_120000'', output_dir = ''output/meta''\<rparr>
          ws = (Inr m, (w, s))
      \<and> length (batch_files w) = 2
      \<and> map_of m ''total_records'' = Some (PInt 3)
      \<and> map_of m ''total_batches'' = Some (PInt 2))"
proof -
  let ?cf = "\<lparr>ow_platform = ''meta'', ow_mode = ''local'', ow_bucket_name = None, batch_size = 2,
            compress = False, extraction_id = ''20240115_120000'', output_dir = ''output/meta''\<rparr>"
  let ?w0 = "\<lparr>current_batch = [], batch_count = 0, total_records = 0, batch_files = []\<rparr>"
  let ?recs = "[PDict [(''ad_id'', PStr ''0'')], PDict [(''ad_id'', PStr ''1'')], PDict [(''ad_id'', PStr ''2'')]]"
  have i: "OutputWriter_init ''meta'' ''local'' None (int 2) ''output'' False ''20240115_120000''
     = Inr (?cf, ?w0)"
    by (simp add: OutputWriter_init_def path_join_def)
  have b: "(1::nat) \<le> 2" by simp
  have h: "\<forall>k. \<not> broken quiet_world k" by (simp add: quiet_world_def)
  have c: "ceil_div (length ?recs) 2 = 2" by (simp add: ceil_div_eq)
  obtain ws m w s where
      "write_records ?cf ?recs (?w0, quiet_world) = (Inr (), ws)"
      "finalize ?cf ws = (Inr m, (w, s))"
      "length (batch_files w) = ceil_div (length ?recs) 2"
      "map_of m ''total_records'' = Some (PInt (int (length ?recs)))"
      "map_of m ''total_batches'' = Some (PInt (int (ceil_div (length ?recs) 2)))"
    using batching_exactness [OF i b h, of ?recs] by blast
  then show ?thesis using i h unfolding c by auto
qed

section \<open>RateLimiter: the bucket bound and the throttling contract\<close>


lemma init_bucket: "0 \<le> burst cf \<Longrightarrow> bucket_ok cf (fst (RateLimiter_init cf s))"
  by (simp add: RateLimiter_init_def time_time_def bucket_ok_def)

lemma wait_if_needed_bucket:
  assumes b: "0 \<le> burst cf" and r: "0 \<le> requests_per_minute cf" and ok: "bucket_ok cf l"
  shows "bucket_ok cf (fst (snd (wait_if_needed cf (l, s))))"
proof -
  let ?rps = "requests_per_second cf"
  define t1 where
    "t1 = min (real_of_int (burst cf)) (tokens l + (clock s (reads s) - last_update l) * ?rps)"
  have rps: "0 \<le> ?rps" using r by (simp add: requests_per_second_def)
  have B: "0 \<le> real_of_int (burst cf)" using b by simp
  have t: "0 \<le> tokens l" "tokens l \<le> real_of_int (burst cf)" using ok by (simp_all add: bucket_ok_def)
  have le: "t1 \<le> real_of_int (burst cf)" by (simp add: t1_def)
  show ?thesis
  proof (cases "t1 < 1")
    case False
    then show ?thesis using le
      by (simp add: wait_if_needed_def time_time_def Let_def bucket_ok_def flip: t1_def)
  next
    case lt: True
    show ?thesis
    proof (cases "?rps = 0")
      case True
      then have "t1 = tokens l" using t by (simp add: t1_def)
      then show ?thesis using lt t True
        by (simp add: wait_if_needed_def time_time_def Let_def bucket_ok_def flip: t1_def)
    next
      case False
      then have "0 < ?rps" using rps by simp
      then have "\<not> (1 - t1) / ?rps < 0" using lt by (simp add: divide_less_0_iff)
      then show ?thesis using lt False B
        by (simp add: wait_if_needed_def time_time_def sleep_def Let_def bucket_ok_def
              flip: t1_def)
    qed
  qed
qed

lemma handle_rate_limit_error_bucket:
  assumes b: "0 \<le> burst cf" and ok: "bucket_ok cf l"
  shows "bucket_ok cf (fst (snd (handle_rate_limit_error cf ra attempt (l, s))))"
  using assms
  by (auto simp: handle_rate_limit_error_def Let_def bucket_ok_def sleep_def time_time_def
           split: option.splits sum.splits if_splits prod.splits)

lemma reset_bucket: "0 \<le> burst cf \<Longrightarrow> bucket_ok cf (fst (reset cf (l, s)))"
  by (simp add: reset_def time_time_def bucket_ok_def)

lemma limiter_step_bucket:
  assumes b: "0 \<le> burst cf" and r: "0 \<le> requests_per_minute cf" and ok: "bucket_ok cf (fst ls)"
  shows "bucket_ok cf (fst (limiter_step cf c ls))"
proof -
  obtain l s where ls: "ls = (l, s)" by (cases ls)
  show ?thesis
    using wait_if_needed_bucket [OF b r, of l s] handle_rate_limit_error_bucket [OF b, of l _ _ s]
      reset_bucket [OF b, of l s] ok
    by (cases c) (simp_all add: limiter_step_def ls)
qed

lemma limiter_calls_bucket:
  assumes b: "0 \<le> burst cf" and r: "0 \<le> requests_per_minute cf"
  shows "bucket_ok cf (fst ls) \<Longrightarrow> bucket_ok cf (fst (limiter_calls cf cs ls))"
  unfolding limiter_calls_def
proof (induction cs arbitrary: ls)
  case Nil
  then show ?case by simp
next
  case (Cons c cs)
  show ?case using Cons.IH [OF limiter_step_bucket [OF b r Cons.prems]] by simp
qed

text \<open>
  Claim C8. The invariant \<open>0 \<le> tokens \<le> burst\<close> holds after construction and is
  preserved by every operation of the limiter (\<open>wait_if_needed\<close>,
  \<open>handle_rate_limit_error\<close>, \<open>reset\<close>), whether the operation returns or raises, for
  every sequence of calls and every reading of the clock between them. The configuration
  is one with a non-negative \<open>burst\<close> and a non-negative \<open>requests_per_minute\<close>.
\<close>

theorem token_bucket_invariant:
  assumes "0 \<le> burst cf" and "0 \<le> requests_per_minute cf"
  shows "bucket_ok cf (fst (RateLimiter_init cf s))
    \<and> (bucket_ok cf l \<longrightarrow>
          bucket_ok cf (fst (snd (wait_if_needed cf (l, s))))
        \<and> bucket_ok cf (fst (snd (handle_rate_limit_error cf retry_after attempt (l, s))))
        \<and> bucket_ok cf (fst (reset cf (l, s))))
    \<and> bucket_ok cf (fst (limiter_calls cf cs (RateLimiter_init cf s)))"
  using assms init_bucket [of cf s] wait_if_needed_bucket [of cf l s]
    handle_rate_limit_error_bucket [of cf l retry_after attempt s] reset_bucket [of cf l s]
    limiter_calls_bucket [of cf "RateLimiter_init cf s" cs]
  by blast

text \<open>The hypotheses hold for the example configuration and a limiter just constructed.\<close>

theorem token_bucket_invariant_witness:
  "0 \<le> burst demo_limiter_config
   \<and> 0 \<le> requests_per_minute demo_limiter_config
   \<and> bucket_ok demo_limiter_config demo_limiter
   \<and> bucket_ok demo_limiter_config
        (fst (snd (wait_if_needed demo_limiter_config (demo_limiter, quiet_world))))
   \<and> bucket_ok demo_limiter_config
        (fst (snd (handle_rate_limit_error demo_limiter_config None 1 (demo_limiter, quiet_world))))
   \<and> bucket_ok demo_limiter_config (fst (reset demo_limiter_config (demo_limiter, quiet_world)))
   \<and> bucket_ok demo_limiter_config
        (fst (limiter_calls demo_limiter_config
               [Acquire, Acquire, Throttled None 1, Acquire, Throttled (Some 5) 4, Reset]
               (RateLimiter_init demo_limiter_config quiet_world)))"
proof -
  have b: "0 \<le> burst demo_limiter_config" and r: "0 \<le> requests_per_minute demo_limiter_config"
    by (simp_all add: demo_limiter_config_def)
  have l: "bucket_ok demo_limiter_config demo_limiter"
    by (simp add: bucket_ok_def demo_limiter_def RateLimiter_init_def time_time_def
          demo_limiter_config_def)
  show ?thesis
    using b r l
      token_bucket_invariant [OF b r, of quiet_world demo_limiter None 1
        "[Acquire, Acquire, Throttled None 1, Acquire, Throttled (Some 5) 4, Reset]"]
    by blast
qed



section \<open>CheckpointManager: corrupt checkpoints and the round trip\<close>

text \<open>
  A checkpoint file whose text is not JSON is taken for no checkpoint: this is the case
  the code handles and its test exercises.
\<close>

lemma load_corrupt_json:
  assumes "cm_mode cf = ''local''" "checkpoints s (LocalPath (checkpoint_path cf)) = Some bytes"
    "\<not> broken s (LocalPath (checkpoint_path cf))" "utf8_valid bytes" "json_loads J bytes = None"
  shows "load J cf s = Inr None"
  using assms by (simp add: load_def checkpoint_key_def)

text \<open>
  Claim C3 says that \<open>load\<close> returns \<open>None\<close>, and does not raise, for every content
  of the checkpoint file that does not parse as a checkpoint, bytes that are not UTF-8
  included. For a checkpoint file that holds the single byte \<open>0xFF\<close>, which is not UTF-8,
  \<open>load\<close> raises \<open>CheckpointError\<close>, whatever the \<open>json\<close> module does: the decoding
  fails before the parser is reached, and \<open>UnicodeDecodeError\<close> is not the exception that
  the method lets pass.
\<close>

theorem load_not_utf8_raises:
  "load J demo_checkpoint_config
     (quiet_world\<lparr>checkpoints :=
        (checkpoints quiet_world)(LocalPath ''.checkpoints/meta_checkpoint.json'' \<mapsto> [CHR 0xFF])\<rparr>)
   = Inl CheckpointError"
  by (simp add: load_def checkpoint_key_def demo_checkpoint_config_def quiet_world_def)

lemma map_of_stamped:
  "map_of (stamped cf stamp c) k =
     (if k = ''platform'' then Some (PStr (cm_platform cf))
      else if k = ''last_update'' then Some (PStr stamp) else map_of c k)"
  by (simp add: stamped_def update_conv')

lemma get_stamped_cursor: "get (stamped cf stamp c) ''cursor'' = get c ''cursor''"
  by (simp add: get_def get_default_def map_of_stamped)

lemma save_stores:
  assumes mode: "cm_mode cf = ''local'' \<or> (cm_mode cf = ''gcs'' \<and> cm_bucket_name cf \<noteq> None)"
    and ok: "\<forall>k. \<not> broken s k"
    and cur: "\<not> truthy (get c ''cursor'') \<or> sliceable (get c ''cursor'')"
  shows "\<exists>k s'. save J cf c s = (Inr (), s')
      \<and> checkpoint_key cf (checkpoint_path cf) = Some k
      \<and> checkpoints s' k = Some (json_dumps J (PDict (stamped cf (utc s (reads s) @ ''Z'') c)))
      \<and> broken s' = broken s"
proof (cases "cm_mode cf = ''local''")
  case True
  then show ?thesis using ok cur
    by (auto simp: save_def utcnow_z_def Let_def checkpoint_key_def get_stamped_cursor
          simp flip: stamped_def)
next
  case False
  then obtain b where "cm_mode cf = ''gcs''" "cm_bucket_name cf = Some b" using mode by auto
  then show ?thesis using ok cur
    by (auto simp: save_def utcnow_z_def Let_def checkpoint_key_def get_stamped_cursor
          simp flip: stamped_def)
qed

text \<open>
  Claim C5, amended. For every checkpoint dictionary \<open>c\<close> whose cursor is absent, false
  or a string (or a list), saved by a manager in local or gcs mode on a storage that does
  not fail, with a \<open>json\<close> module that reads back what it writes for the stored
  dictionary: \<open>save c\<close> returns, and \<open>load\<close> then returns \<open>c\<close> with \<open>last_update\<close> set to
  the time of the save and \<open>platform\<close> set to the manager's platform; every other field
  is as in \<open>c\<close>.
\<close>

theorem save_load_roundtrip:
  assumes mode: "cm_mode cf = ''local'' \<or> (cm_mode cf = ''gcs'' \<and> cm_bucket_name cf \<noteq> None)"
    and ok: "\<forall>k. \<not> broken s k"
    and lib: "survives J (PDict (stamped cf (utc s (reads s) @ ''Z'') c))"
    and cur: "\<not> truthy (get c ''cursor'') \<or> sliceable (get c ''cursor'')"
  shows "fst (save J cf c s) = Inr ()
     \<and> load J cf (snd (save J cf c s)) = Inr (Some (stamped cf (utc s (reads s) @ ''Z'') c))
     \<and> map_of (stamped cf (utc s (reads s) @ ''Z'') c) ''last_update''
         = Some (PStr (utc s (reads s) @ ''Z''))
     \<and> map_of (stamped cf (utc s (reads s) @ ''Z'') c) ''platform'' = Some (PStr (cm_platform cf))
     \<and> (\<forall>k. k \<noteq> ''last_update'' \<and> k \<noteq> ''platform''
           \<longrightarrow> map_of (stamped cf (utc s (reads s) @ ''Z'') c) k = map_of c k)"
proof -
  let ?d = "stamped cf (utc s (reads s) @ ''Z'') c"
  obtain k s' where sv: "save J cf c s = (Inr (), s')"
    and k: "checkpoint_key cf (checkpoint_path cf) = Some k"
    and st: "checkpoints s' k = Some (json_dumps J (PDict ?d))"
    and br: "broken s' = broken s"
    using save_stores [OF mode ok cur] by blast
  have "load J cf s' = Inr (Some ?d)"
    using mode k st br ok lib by (auto simp: load_def survives_def)
  then show ?thesis using sv by (simp add: map_of_stamped)
qed

text \<open>
  The hypotheses hold for the dictionary of the repository's own test, with the small
  JSON module.
\<close>

theorem save_load_roundtrip_witness:
  "(cm_mode demo_checkpoint_config = ''local''
      \<or> (cm_mode demo_checkpoint_config = ''gcs'' \<and> cm_bucket_name demo_checkpoint_config \<noteq> None))
   \<and> (\<forall>k. \<not> broken quiet_world k)
   \<and> survives mini_json
        (PDict (stamped demo_checkpoint_config (utc quiet_world (reads quiet_world) @ ''Z'')
                  [(''cursor'', PStr ''abc123''), (''records_processed'', PInt 1000)]))
   \<and> sliceable (get [(''cursor'', PStr ''abc123''), (''records_processed'', PInt 1000)] ''cursor'')
   \<and> fst (save mini_json demo_checkpoint_config
             [(''cursor'', PStr ''abc123''), (''records_processed'', PInt 1000)] quiet_world) = Inr ()
   \<and> load mini_json demo_checkpoint_config
        (snd (save mini_json demo_checkpoint_config
                [(''cursor'', PStr ''abc123''), (''records_processed'', PInt 1000)] quiet_world))
      = Inr (Some [(''cursor'', PStr ''abc123''), (''records_processed'', PInt 1000),
                   (''last_update'', PStr ''2024-01-15T12:00:00Z''), (''platform'', PStr ''meta'')])"
proof -
  let ?c = "[(''cursor'', PStr ''abc123''), (''records_processed'', PInt 1000)]"
  have m: "cm_mode demo_checkpoint_config = ''local''
      \<or> (cm_mode demo_checkpoint_config = ''gcs'' \<and> cm_bucket_name demo_checkpoint_config \<noteq> None)"
    by (simp add: demo_checkpoint_config_def)
  have b: "\<forall>k. \<not> broken quiet_world k" by (simp add: quiet_world_def)
  have st: "stamped demo_checkpoint_config (utc quiet_world (reads quiet_world) @ ''Z'') ?c
      = [(''cursor'', PStr ''abc123''), (''records_processed'', PInt 1000),
         (''last_update'', PStr ''2024-01-15T12:00:00Z''), (''platform'', PStr ''meta'')]"
    by (simp add: stamped_def demo_checkpoint_config_def quiet_world_def)
  have l: "survives mini_json
        (PDict (stamped demo_checkpoint_config (utc quiet_world (reads quiet_world) @ ''Z'') ?c))"
    unfolding st
    by (simp add: survives_def mini_json_def joined_def str_int_def str_nat.simps digit_def
          mini_loads_def skip_ws_def read_string_def read_nat_def is_digit_def digits_value_def)
  have c: "\<not> truthy (get ?c ''cursor'') \<or> sliceable (get ?c ''cursor'')"
    by (simp add: get_def get_default_def)
  show ?thesis
    using save_load_roundtrip [OF m b l c] m b l c unfolding st
    by (simp add: get_def get_default_def)
qed

text \<open>
  Claim C5 as stated fails: the dictionary \<open>{"cursor": "abc123", "records_processed": 1000}\<close>
  has no field \<open>platform\<close>, and what \<open>load\<close> returns after \<open>save\<close> has one, besides
  \<open>last_update\<close>.
\<close>

theorem save_load_sets_platform:
  "load mini_json demo_checkpoint_config
     (snd (save mini_json demo_checkpoint_config
             [(''cursor'', PStr ''abc123''), (''records_processed'', PInt 1000)] quiet_world))
     = Inr (Some [(''cursor'', PStr ''abc123''), (''records_processed'', PInt 1000),
                  (''last_update'', PStr ''2024-01-15T12:00:00Z''), (''platform'', PStr ''meta'')])
   \<and> map_of [(''cursor'', PStr ''abc123''), (''records_processed'', PInt 1000)] ''platform'' = None"
  by (simp add: save_def load_def utcnow_z_def checkpoint_key_def demo_checkpoint_config_def
        quiet_world_def get_def get_default_def Let_def
        mini_json_def joined_def str_int_def str_nat.simps digit_def
        mini_loads_def skip_ws_def read_string_def read_nat_def is_digit_def digits_value_def)

section \<open>Validation of records and open-ended ranges\<close>

lemma get_missing: "missing_or_empty L r f \<longleftrightarrow>
    (get r f = PNone \<or> (case get r f of PStr s \<Rightarrow> blank L s | _ \<Rightarrow> False))"
  by (auto simp: missing_or_empty_def get_def get_default_def split: option.splits pyval.splits)

lemma validate_required_fields_find:
  "validate_required_fields L r fs =
     (case find (missing_or_empty L r) fs of
        None \<Rightarrow> (True, None)
      | Some g \<Rightarrow> (False, Some (''Missing or empty required field: '' @ g)))"
  by (induction fs) (auto simp: Let_def get_missing)

lemma find_missing:
  "f \<in> set fs \<Longrightarrow> P f \<Longrightarrow> \<exists>g. find P fs = Some g \<and> g \<in> set fs \<and> P g"
  by (induction fs) auto

lemma validate_record_missing:
  "find (missing_or_empty L r) required_fields = Some g
   \<Longrightarrow> validate_record L r = Inr (False, Some (''Missing or empty required field: '' @ g))"
  by (simp add: validate_record_def validate_required_fields_find required_fields_def)

lemma py_gt_num: "num_of a = Some x \<Longrightarrow> num_of b = Some y \<Longrightarrow> py_gt a b = Inr (y < x)"
  by (cases a; cases b) auto

lemma validate_record_spend:
  assumes a: "num_of (get r ''spend_min'') = Some x" and b: "num_of (get r ''spend_max'') = Some y"
    and gt: "y < x"
  shows "\<exists>msg. validate_record L r = Inr (False, Some msg)"
proof -
  have n: "get r ''spend_min'' \<noteq> PNone" "get r ''spend_max'' \<noteq> PNone" using a b by auto
  show ?thesis
    using n gt py_gt_num [OF a b]
    by (auto simp: validate_record_def Let_def split: prod.splits bool.splits option.splits)
qed

text \<open>
  Claim C9, amended. For every record, so for every transformed record: if a required
  field (\<open>ad_id\<close>, \<open>platform\<close>, \<open>advertiser_name\<close>) is missing or empty, \<open>validate_record\<close>
  returns \<open>is_valid = False\<close> with the reason
  \<open>Missing or empty required field: g\<close>, where \<open>g\<close> is the first required field that is
  missing or empty; and if both spend bounds are numbers with
  \<open>spend_min > spend_max\<close>, it returns \<open>is_valid = False\<close>. The impressions bounds are
  not compared.
\<close>

theorem validate_record_correct:
  "(f \<in> set required_fields \<and> missing_or_empty L r f \<longrightarrow>
      (\<exists>g. find (missing_or_empty L r) required_fields = Some g
         \<and> g \<in> set required_fields \<and> missing_or_empty L r g
         \<and> validate_record L r = Inr (False, Some (''Missing or empty required field: '' @ g))))
   \<and> (num_of (get r ''spend_min'') = Some x \<and> num_of (get r ''spend_max'') = Some y \<and> y < x \<longrightarrow>
        (\<exists>msg. validate_record L r = Inr (False, Some msg)))"
  using find_missing [of f required_fields "missing_or_empty L r"]
    validate_record_missing [of L r] validate_record_spend [of r x y L]
  by blast


text \<open>
  Both hypotheses can be met: a record whose \<open>ad_id\<close> is blank, and the record of the
  repository's test with \<open>spend_min = 500\<close> and \<open>spend_max = 100\<close>.
\<close>

theorem validate_record_correct_witness:
  "''ad_id'' \<in> set required_fields
   \<and> missing_or_empty demo_pylib [(''ad_id'', PStr ''  ''), (''platform'', PStr ''meta'')] ''ad_id''
   \<and> validate_record demo_pylib [(''ad_id'', PStr ''  ''), (''platform'', PStr ''meta'')]
        = Inr (False, Some ''Missing or empty required field: ad_id'')
   \<and> num_of (get [(''ad_id'', PStr ''12345''), (''platform'', PStr ''meta''),
                   (''advertiser_name'', PStr ''Test Page''), (''spend_min'', PInt 500),
                   (''spend_max'', PInt 100)] ''spend_min'') = Some 500
   \<and> num_of (get [(''ad_id'', PStr ''12345''), (''platform'', PStr ''meta''),
                   (''advertiser_name'', PStr ''Test Page''), (''spend_min'', PInt 500),
                   (''spend_max'', PInt 100)] ''spend_max'') = Some 100
   \<and> (\<exists>msg. validate_record demo_pylib
                 [(''ad_id'', PStr ''12345''), (''platform'', PStr ''meta''),
                  (''advertiser_name'', PStr ''Test Page''), (''spend_min'', PInt 500),
                  (''spend_max'', PInt 100)] = Inr (False, Some msg))"
proof -
  let ?r1 = "[(''ad_id'', PStr ''  ''), (''platform'', PStr ''meta'')]"
  let ?r2 = "[(''ad_id'', PStr ''12345''), (''platform'', PStr ''meta''),
              (''advertiser_name'', PStr ''Test Page''), (''spend_min'', PInt 500),
              (''spend_max'', PInt 100)]"
  have f: "''ad_id'' \<in> set required_fields" by (simp add: required_fields_def)
  have m: "missing_or_empty demo_pylib ?r1 ''ad_id''"
    by (simp add: missing_or_empty_def demo_pylib_def is_space_def)
  have fi: "find (missing_or_empty demo_pylib ?r1) required_fields = Some ''ad_id''"
    using m by (simp add: required_fields_def)
  have a: "num_of (get ?r2 ''spend_min'') = Some 500" "num_of (get ?r2 ''spend_max'') = Some 100"
    by (simp_all add: get_def get_default_def)
  show ?thesis
    using validate_record_correct [where f = "''ad_id''" and L = demo_pylib and r = ?r1]
      validate_record_correct [where L = demo_pylib and r = ?r2 and x = 500 and y = 100]
      f m fi a
    by auto
qed


text \<open>
  Claim C9 as stated fails on the impressions range: the raw item with impressions
  \<open>5000\<close> to \<open>1000\<close> is transformed into a record with
  \<open>impressions_min = 5000 > impressions_max = 1000\<close>, and \<open>validate_record\<close> accepts it.
\<close>

theorem validate_record_ignores_impressions:
  "(case fst (transform_ad demo_pylib demo_helpers ''v21.0''
               (PDict [(''id'', PStr ''12345''), (''page_name'', PStr ''Test Page''),
                       (''impressions'', PDict [(''lower_bound'', PStr ''5000''),
                                                (''upper_bound'', PStr ''1000'')])])
               quiet_world) of
      Inl e \<Rightarrow> False
    | Inr rec \<Rightarrow>
        get rec ''impressions_min'' = PFloat 5000 \<and> get rec ''impressions_max'' = PFloat 1000
        \<and> validate_record demo_pylib rec = Inr (True, None))"
  by (simp add: transform_ad_def demo_helpers_def demo_pylib_def utcnow_z_def quiet_world_def
        parse_range_def parse_bound_def demo_str_def demo_float_def read_nat_def is_digit_def
        digits_value_def get_def get_default_def Let_def validate_record_def is_space_def)










section \<open>MetaAdCollector: a throttled request is retried a bounded number of times\<close>

lemma sleep_frame:
  "sleep t s = (r, s') \<Longrightarrow> sent s' = sent s \<and> server s' = server s"
  by (auto simp: sleep_def split: if_splits)

















section \<open>MetaAdCollector: the progress count of a resumed run\<close>

text \<open>
  Claim C6 says that the \<open>records_processed\<close> that a run writes to the checkpoint never
  decreases from one write to the next, also in a run that resumes from a checkpoint. In
  the run below the checkpoint that an earlier run saved holds the cursor \<open>c0\<close> and
  \<open>records_processed = 10\<close>, the interval is two records, and the server answers the one
  request (for the page after \<open>c0\<close>) with a last page of two ads. The fetch stream yields
  the two ads and ends without an exception. It writes the checkpoint twice:
  \<open>save_cursor\<close> adds the two records to the stored count and writes 12, and the final
  \<open>update_progress\<close> writes 2, the number of ads of this run alone.
\<close>

theorem fetch_ads_resumed_progress_decreases:
  "map_option
     (\<lambda>out. (fst out, fst (snd out),
             records_processed_written mini_json (snd (snd (snd out))),
             sent (snd (snd (snd out)))))
     (fetch_ads 2 demo_collector mini_json ''2024-01-01'' ''2024-01-31''
        (demo_collector_state, resumed_world))
   = Some ([PDict [(''id'', PStr ''1'')], PDict [(''id'', PStr ''2'')]], None,
           [PInt 12, PInt 2], [PStr ''c0''])"
  by code_simp

section \<open>The orchestrator does not authenticate\<close>

text \<open>
  Whatever \<open>authenticate\<close> is, \<open>run\<close> does the same: the method is not called.
\<close>

lemma run_loop_ignores_authenticate:
  "run_loop fuel (A\<lparr>authenticate_of := f\<rparr>) wcf dry_run g stats ws = run_loop fuel A wcf dry_run g stats ws"
  by (induction fuel A wcf dry_run g stats ws rule: run_loop.induct)
     (auto split: prod.splits step.splits sum.splits simp: Let_def)

lemma run_ignores_authenticate:
  "run fuel (A\<lparr>authenticate_of := f\<rparr>) wcf dry_run g ws = run fuel A wcf dry_run g ws"
  by (simp add: run_def run_loop_ignores_authenticate)

text \<open>
  Claim C1 says that \<open>run\<close> calls \<open>authenticate\<close> before it fetches, and that a failed
  authentication ends the run with no batch file and no manifest. Below, the server cannot
  be reached, so \<open>authenticate\<close> raises \<open>AuthenticationError\<close>; the fetch stream of the
  example collector yields one raw item. \<open>run\<close> sends no request at all, fetches the item,
  finds it valid, writes it, and returns its statistics with a manifest of one record in
  one batch: the batch file and the manifest file both exist afterwards.
\<close>

theorem run_without_authentication:
  "fst (authenticate quiet_world) = Inl AuthenticationError
   \<and> map_option
        (\<lambda>out. (map_sum id (\<lambda>st. (records_fetched st, records_valid st,
                                    map_option (\<lambda>m. (get m ''total_records'', get m ''total_batches'')) (manifest_of st)))
                   (fst out),
                batch_files (fst (snd out)),
                files (snd (snd out)) (LocalPath ''output/meta/meta_ads_20240115_120000_batch_0001.ndjson'') \<noteq> None,
                files (snd (snd out)) (LocalPath ''output/meta/meta_ads_20240115_120000_manifest.json'') \<noteq> None,
                sent (snd (snd out))))
        (run 2 demo_meta demo_writer False
           [PDict [(''id'', PStr ''12345''), (''page_name'', PStr ''Test Page'')]]
           (fresh_writer, quiet_world))
     = Some (Inr (1, 1, Some (PInt 1, PInt 1)),
             [''meta_ads_20240115_120000_batch_0001.ndjson''], True, True, [])"
  by code_simp

end
